theory Spec2Isabelle
  imports Complex_Main "HOL-Library.Sublist"
begin

section \<open>JavaScript values handled by the accessor\<close>

text \<open>
  The accessor wraps a value of type \<open>any\<close>. The model covers decoded data: \<open>undefined\<close>,
  \<open>null\<close>, booleans, numbers, strings, arrays and plain objects, and what a property read
  on such a value can return besides: the built-in prototype objects, their methods and
  their constructors. A number is \<open>NaN\<close> or a finite value; the infinities are left out.
  An object is the list of its own properties, the first binding of a key being the one
  that is read.

  \<open>Array.prototype\<close> is itself an empty array and is the value \<open>JArr []\<close>; the other
  prototype objects are \<open>JPrototype\<close> values. \<open>JFunction k name n\<close> is the built-in function
  found in \<open>k.prototype\<close>, with its \<open>name\<close> and its \<open>length\<close>; \<open>JConstructor k\<close> is the
  constructor \<open>k\<close> itself.
\<close>

datatype jsnum = NaN | Fin real

datatype kind = KObject | KFunction | KArray | KString | KNumber | KBoolean

datatype proto = PObject | PFunction | PString | PNumber | PBoolean

datatype jsval =
    JUndefined
  | JNull
  | JBool bool
  | JNum jsnum
  | JStr string
  | JArr "jsval list"
  | JObj "(string \<times> jsval) list"
  | JPrototype proto
  | JFunction kind string nat
  | JConstructor kind

text \<open>
  Two things can be thrown: an \<open>Error\<close> built by the library with its message, and the
  \<open>TypeError\<close> of the language when a property of \<open>undefined\<close> or \<open>null\<close> is read.
\<close>

datatype error = Error string | TypeError

text \<open>\<open>!value\<close> is the negation of \<open>truthy value\<close>. Every object and function is truthy.\<close>

fun truthy :: "jsval \<Rightarrow> bool" where
  "truthy JUndefined = False"
| "truthy JNull = False"
| "truthy (JBool b) = b"
| "truthy (JNum NaN) = False"
| "truthy (JNum (Fin r)) = (r \<noteq> 0)"
| "truthy (JStr s) = (s \<noteq> [])"
| "truthy (JArr xs) = True"
| "truthy (JObj kvs) = True"
| "truthy (JPrototype p) = True"
| "truthy (JFunction k n a) = True"
| "truthy (JConstructor k) = True"

text \<open>\<open>value == undefined\<close>: loose equality holds for \<open>undefined\<close> and \<open>null\<close> only.\<close>

fun looseEqUndefined :: "jsval \<Rightarrow> bool" where
  "looseEqUndefined JUndefined = True"
| "looseEqUndefined JNull = True"
| "looseEqUndefined v = False"

subsection \<open>The built-in prototypes\<close>

text \<open>
  The methods of the prototype objects, each with the \<open>length\<close> of the function, as the
  ECMAScript 2024 standard library with its Annex B defines them. The properties with a
  symbol as key are not listed: a key of the accessor is a string.
\<close>

definition objectMethods :: "(string \<times> nat) list" where
  "objectMethods =
     [(''hasOwnProperty'', 1), (''isPrototypeOf'', 1), (''propertyIsEnumerable'', 1),
      (''toLocaleString'', 0), (''toString'', 0), (''valueOf'', 0),
      (''__defineGetter__'', 2), (''__defineSetter__'', 2),
      (''__lookupGetter__'', 1), (''__lookupSetter__'', 1)]"

definition functionMethods :: "(string \<times> nat) list" where
  "functionMethods = [(''apply'', 2), (''bind'', 1), (''call'', 1), (''toString'', 0)]"

definition arrayMethods :: "(string \<times> nat) list" where
  "arrayMethods =
     [(''at'', 1), (''concat'', 1), (''copyWithin'', 2), (''entries'', 0), (''every'', 1),
      (''fill'', 1), (''filter'', 1), (''find'', 1), (''findIndex'', 1), (''findLast'', 1),
      (''findLastIndex'', 1), (''flat'', 0), (''flatMap'', 1), (''forEach'', 1),
      (''includes'', 1), (''indexOf'', 1), (''join'', 1), (''keys'', 0),
      (''lastIndexOf'', 1), (''map'', 1), (''pop'', 0), (''push'', 1), (''reduce'', 1),
      (''reduceRight'', 1), (''reverse'', 0), (''shift'', 0), (''slice'', 2), (''some'', 1),
      (''sort'', 1), (''splice'', 2), (''toLocaleString'', 0), (''toReversed'', 0),
      (''toSorted'', 1), (''toSpliced'', 2), (''toString'', 0), (''unshift'', 1),
      (''values'', 0), (''with'', 2)]"

definition stringMethods :: "(string \<times> nat) list" where
  "stringMethods =
     [(''at'', 1), (''charAt'', 1), (''charCodeAt'', 1), (''codePointAt'', 1),
      (''concat'', 1), (''endsWith'', 1), (''includes'', 1), (''indexOf'', 1),
      (''lastIndexOf'', 1), (''localeCompare'', 1), (''match'', 1), (''matchAll'', 1),
      (''normalize'', 0), (''padEnd'', 1), (''padStart'', 1), (''repeat'', 1),
      (''replace'', 2), (''replaceAll'', 2), (''search'', 1), (''slice'', 2), (''split'', 2),
      (''startsWith'', 1), (''substring'', 2), (''toLocaleLowerCase'', 0),
      (''toLocaleUpperCase'', 0), (''toLowerCase'', 0), (''toString'', 0),
      (''toUpperCase'', 0), (''trim'', 0), (''trimEnd'', 0), (''trimStart'', 0),
      (''valueOf'', 0), (''substr'', 2), (''anchor'', 1), (''big'', 0), (''blink'', 0),
      (''bold'', 0), (''fixed'', 0), (''fontcolor'', 1), (''fontsize'', 1), (''italics'', 0),
      (''link'', 1), (''small'', 0), (''strike'', 0), (''sub'', 0), (''sup'', 0),
      (''isWellFormed'', 0), (''toWellFormed'', 0)]"

definition numberMethods :: "(string \<times> nat) list" where
  "numberMethods =
     [(''toExponential'', 1), (''toFixed'', 1), (''toLocaleString'', 0),
      (''toPrecision'', 1), (''toString'', 1), (''valueOf'', 0)]"

definition booleanMethods :: "(string \<times> nat) list" where
  "booleanMethods = [(''toString'', 0), (''valueOf'', 0)]"

fun methodsOf :: "kind \<Rightarrow> (string \<times> nat) list" where
  "methodsOf KObject = objectMethods"
| "methodsOf KFunction = functionMethods"
| "methodsOf KArray = arrayMethods"
| "methodsOf KString = stringMethods"
| "methodsOf KNumber = numberMethods"
| "methodsOf KBoolean = booleanMethods"

fun kindName :: "kind \<Rightarrow> string" where
  "kindName KObject = ''Object''"
| "kindName KFunction = ''Function''"
| "kindName KArray = ''Array''"
| "kindName KString = ''String''"
| "kindName KNumber = ''Number''"
| "kindName KBoolean = ''Boolean''"

fun prototypeOf :: "kind \<Rightarrow> jsval" where
  "prototypeOf KObject = JPrototype PObject"
| "prototypeOf KFunction = JPrototype PFunction"
| "prototypeOf KArray = JArr []"
| "prototypeOf KString = JPrototype PString"
| "prototypeOf KNumber = JPrototype PNumber"
| "prototypeOf KBoolean = JPrototype PBoolean"

fun kindOf :: "proto \<Rightarrow> kind" where
  "kindOf PObject = KObject"
| "kindOf PFunction = KFunction"
| "kindOf PString = KString"
| "kindOf PNumber = KNumber"
| "kindOf PBoolean = KBoolean"

text \<open>
  The own property \<open>key\<close> of \<open>k.prototype\<close>, \<open>__proto__\<close> apart: its \<open>constructor\<close>, its
  methods (\<open>trimLeft\<close> and \<open>trimRight\<close> are the functions \<open>trimStart\<close> and \<open>trimEnd\<close>), and
  the \<open>length\<close> of the three prototypes that are an array, a string object and a function.
  \<open>Function.prototype\<close> has the name \<open>""\<close>, and its \<open>caller\<close> and \<open>arguments\<close> are
  accessors that throw a \<open>TypeError\<close>.
\<close>

definition ownOfPrototype :: "kind \<Rightarrow> string \<Rightarrow> (error + jsval) option" where
  "ownOfPrototype k key =
     (if key = ''constructor'' then Some (Inr (JConstructor k))
      else if k = KString \<and> key = ''trimLeft'' then Some (Inr (JFunction KString ''trimStart'' 0))
      else if k = KString \<and> key = ''trimRight'' then Some (Inr (JFunction KString ''trimEnd'' 0))
      else if (k = KArray \<or> k = KString \<or> k = KFunction) \<and> key = ''length''
        then Some (Inr (JNum (Fin 0)))
      else if k = KFunction \<and> key = ''name'' then Some (Inr (JStr []))
      else if k = KFunction \<and> (key = ''caller'' \<or> key = ''arguments'') then Some (Inl TypeError)
      else case map_of (methodsOf k) key of
             None \<Rightarrow> None
           | Some n \<Rightarrow> Some (Inr (JFunction k key n)))"

text \<open>
  The key looked up in \<open>k.prototype\<close> and then in \<open>Object.prototype\<close>, where the chain
  ends: a key found in neither reads as \<open>undefined\<close>.
\<close>

definition lookupFrom :: "kind \<Rightarrow> string \<Rightarrow> error + jsval" where
  "lookupFrom k key =
     (case ownOfPrototype k key of
        Some r \<Rightarrow> r
      | None \<Rightarrow> (case ownOfPrototype KObject key of Some r \<Rightarrow> r | None \<Rightarrow> Inr JUndefined))"

text \<open>
  The read of a key that is not an own property, by a value whose prototype is
  \<open>k.prototype\<close>. \<open>__proto__\<close> is an accessor of \<open>Object.prototype\<close> that returns the
  prototype of the value read.
\<close>

definition inherited :: "kind \<Rightarrow> string \<Rightarrow> error + jsval" where
  "inherited k key = (if key = ''__proto__'' then Inr (prototypeOf k) else lookupFrom k key)"

subsection \<open>Property reads\<close>

text \<open>
  \<open>o[key]\<close>. An array index is a canonical decimal numeral: digits only, no leading zero
  except for \<open>0\<close> itself. Arrays and strings have their indices and \<open>length\<close> as own
  properties, an object has its keys; any other key is looked up along the prototype
  chain. A prototype object has \<open>Object.prototype\<close> as its prototype, and
  \<open>Object.prototype\<close> has none. A function has its \<open>length\<close> and its \<open>name\<close>, a constructor its
  \<open>prototype\<close> too; the static members of the constructors (\<open>Object.keys\<close> and the like)
  are left out.
\<close>

definition isDigit :: "char \<Rightarrow> bool" where
  "isDigit c = (48 \<le> (of_char c :: nat) \<and> (of_char c :: nat) \<le> 57)"

definition arrayIndex :: "string \<Rightarrow> nat option" where
  "arrayIndex key =
     (if key \<noteq> [] \<and> list_all isDigit key \<and> (if hd key = CHR ''0'' then length key = 1 else True)
      then Some (foldl (\<lambda>a c. 10 * a + (of_char c - 48)) 0 key)
      else None)"

definition indexed :: "'a list \<Rightarrow> ('a \<Rightarrow> jsval) \<Rightarrow> string \<Rightarrow> jsval option" where
  "indexed xs mk key =
     (if key = ''length'' then Some (JNum (Fin (real (length xs))))
      else case arrayIndex key of
             None \<Rightarrow> None
           | Some i \<Rightarrow> if i < length xs then Some (mk (xs ! i)) else None)"

fun readProperty :: "jsval \<Rightarrow> string \<Rightarrow> error + jsval" where
  "readProperty JUndefined key = Inl TypeError"
| "readProperty JNull key = Inl TypeError"
| "readProperty (JBool b) key = inherited KBoolean key"
| "readProperty (JNum n) key = inherited KNumber key"
| "readProperty (JStr s) key =
     (case indexed s (\<lambda>c. JStr [c]) key of Some v \<Rightarrow> Inr v | None \<Rightarrow> inherited KString key)"
| "readProperty (JArr xs) key =
     (case indexed xs (\<lambda>v. v) key of Some v \<Rightarrow> Inr v | None \<Rightarrow> inherited KArray key)"
| "readProperty (JObj kvs) key =
     (case map_of kvs key of Some v \<Rightarrow> Inr v | None \<Rightarrow> inherited KObject key)"
| "readProperty (JPrototype p) key =
     (if key = ''__proto__'' then Inr (if p = PObject then JNull else JPrototype PObject)
      else lookupFrom (kindOf p) key)"
| "readProperty (JFunction k name n) key =
     (if key = ''length'' then Inr (JNum (Fin (real n)))
      else if key = ''name'' then Inr (JStr name)
      else inherited KFunction key)"
| "readProperty (JConstructor k) key =
     (if key = ''length'' then Inr (JNum (Fin 1))
      else if key = ''name'' then Inr (JStr (kindName k))
      else if key = ''prototype'' then Inr (prototypeOf k)
      else inherited KFunction key)"

subsection \<open>The schema checks\<close>

text \<open>
  The source asks zod whether a value parses and keeps only \<open>success\<close>.
  \<open>z.string()\<close>, \<open>z.boolean()\<close> accept by type; \<open>z.number()\<close> accepts a number that is
  not \<open>NaN\<close>; \<open>z.object({})\<close> accepts any value of type \<open>object\<close> that is neither \<open>null\<close>
  nor an array, whatever its keys, so a plain object and a prototype object but no
  function (\<open>Function.prototype\<close> is one); \<open>z.array(e)\<close> accepts an array all of whose
  elements \<open>e\<close> accepts.
\<close>

fun z_string :: "jsval \<Rightarrow> bool" where
  "z_string (JStr s) = True"
| "z_string v = False"

fun z_number :: "jsval \<Rightarrow> bool" where
  "z_number (JNum (Fin r)) = True"
| "z_number v = False"

fun z_boolean :: "jsval \<Rightarrow> bool" where
  "z_boolean (JBool b) = True"
| "z_boolean v = False"

fun z_object :: "jsval \<Rightarrow> bool" where
  "z_object (JObj kvs) = True"
| "z_object (JPrototype p) = (p \<noteq> PFunction)"
| "z_object v = False"

fun z_array :: "(jsval \<Rightarrow> bool) \<Rightarrow> jsval \<Rightarrow> bool" where
  "z_array e (JArr xs) = list_all e xs"
| "z_array e v = False"

section \<open>The class with the \<open>pick\<close> methods\<close>

record Quidquid =
  quidQuid :: jsval
  parentObjectKey :: "string option"

definition new_Quidquid :: "jsval \<Rightarrow> string option \<Rightarrow> Quidquid" where
  "new_Quidquid v k = \<lparr>quidQuid = v, parentObjectKey = k\<rparr>"

definition Quidquid_from :: "jsval \<Rightarrow> Quidquid" where
  "Quidquid_from v = new_Quidquid v None"

text \<open>\<open>!this.parentObjectKey\<close> holds for \<open>undefined\<close> and for the empty string.\<close>

definition pickFullkeyName :: "Quidquid \<Rightarrow> string \<Rightarrow> string" where
  "pickFullkeyName q key =
     (case parentObjectKey q of
        None \<Rightarrow> key
      | Some p \<Rightarrow> if p = [] then key else p @ ''.'' @ key)"

definition pickString :: "Quidquid \<Rightarrow> string \<Rightarrow> error + jsval" where
  "pickString q key =
     (case readProperty (quidQuid q) key of
        Inl e \<Rightarrow> Inl e
      | Inr v \<Rightarrow>
          let fullKeyName = pickFullkeyName q key in
          if \<not> truthy v then Inl (Error (fullKeyName @ '' must not be empty''))
          else if \<not> z_string v then Inl (Error (fullKeyName @ '' must be a string''))
          else Inr v)"

definition pickStringOptional :: "Quidquid \<Rightarrow> string \<Rightarrow> error + jsval" where
  "pickStringOptional q key =
     (case readProperty (quidQuid q) key of
        Inl e \<Rightarrow> Inl e
      | Inr v \<Rightarrow> if \<not> truthy v then Inr JUndefined else pickString q key)"

text \<open>
  An optional parameter \<open>key?: string\<close> is a \<open>string option\<close>; \<open>!key\<close> holds when it is
  left out and when it is the empty string.
\<close>

definition noKey :: "string option \<Rightarrow> bool" where
  "noKey key = (case key of None \<Rightarrow> True | Some k \<Rightarrow> k = [])"

definition pickStringArray :: "Quidquid \<Rightarrow> string option \<Rightarrow> error + jsval" where
  "pickStringArray q key =
     (if noKey key then
        (let v = quidQuid q in
         if looseEqUndefined v then Inl (Error ''body must not be empty'')
         else if \<not> z_array z_string v then Inl (Error ''body must be an array of strings'')
         else Inr v)
      else
        (let fullKeyName = pickFullkeyName q (the key) in
         case readProperty (quidQuid q) (the key) of
           Inl e \<Rightarrow> Inl e
         | Inr v \<Rightarrow>
             if looseEqUndefined v then Inl (Error (fullKeyName @ '' must not be empty''))
             else if \<not> z_array z_string v
               then Inl (Error (fullKeyName @ '' must be an array of strings''))
             else Inr v))"

definition pickStringArrayOptional :: "Quidquid \<Rightarrow> string \<Rightarrow> error + jsval" where
  "pickStringArrayOptional q key =
     (case readProperty (quidQuid q) key of
        Inl e \<Rightarrow> Inl e
      | Inr v \<Rightarrow> if looseEqUndefined v then Inr JUndefined else pickStringArray q (Some key))"

definition pickNumber :: "Quidquid \<Rightarrow> string \<Rightarrow> error + jsval" where
  "pickNumber q key =
     (let fullKeyName = pickFullkeyName q key in
      case readProperty (quidQuid q) key of
        Inl e \<Rightarrow> Inl e
      | Inr v \<Rightarrow>
          if looseEqUndefined v then Inl (Error (fullKeyName @ '' must not be empty''))
          else if \<not> z_number v then Inl (Error (fullKeyName @ '' must be a number''))
          else Inr v)"

definition pickNumberOptional :: "Quidquid \<Rightarrow> string \<Rightarrow> error + jsval" where
  "pickNumberOptional q key =
     (case readProperty (quidQuid q) key of
        Inl e \<Rightarrow> Inl e
      | Inr v \<Rightarrow> if looseEqUndefined v then Inr JUndefined else pickNumber q key)"

definition pickNumberArray :: "Quidquid \<Rightarrow> string option \<Rightarrow> error + jsval" where
  "pickNumberArray q key =
     (if noKey key then
        (let v = quidQuid q in
         if looseEqUndefined v then Inl (Error ''body must not be empty'')
         else if \<not> z_array z_number v then Inl (Error ''body must be an array of numbers'')
         else Inr v)
      else
        (case readProperty (quidQuid q) (the key) of
           Inl e \<Rightarrow> Inl e
         | Inr v \<Rightarrow>
             let fullKeyName = pickFullkeyName q (the key) in
             if looseEqUndefined v then Inl (Error (fullKeyName @ '' must not be empty''))
             else if \<not> z_array z_number v
               then Inl (Error (fullKeyName @ '' must be an array of numbers''))
             else Inr v))"

definition pickNumberArrayOptional :: "Quidquid \<Rightarrow> string \<Rightarrow> error + jsval" where
  "pickNumberArrayOptional q key =
     (case readProperty (quidQuid q) key of
        Inl e \<Rightarrow> Inl e
      | Inr v \<Rightarrow> if looseEqUndefined v then Inr JUndefined else pickNumberArray q (Some key))"

definition pickBoolean :: "Quidquid \<Rightarrow> string \<Rightarrow> error + jsval" where
  "pickBoolean q key =
     (let fullKeyName = pickFullkeyName q key in
      case readProperty (quidQuid q) key of
        Inl e \<Rightarrow> Inl e
      | Inr v \<Rightarrow>
          if looseEqUndefined v then Inl (Error (fullKeyName @ '' must not be empty''))
          else if \<not> z_boolean v then Inl (Error (fullKeyName @ '' must be a boolean''))
          else Inr v)"

definition pickBooleanOptional :: "Quidquid \<Rightarrow> string \<Rightarrow> error + jsval" where
  "pickBooleanOptional q key =
     (case readProperty (quidQuid q) key of
        Inl e \<Rightarrow> Inl e
      | Inr v \<Rightarrow> if looseEqUndefined v then Inr JUndefined else pickBoolean q key)"

text \<open>The child is built from \<open>key\<close>, the name the caller passed.\<close>

definition pickObject :: "Quidquid \<Rightarrow> string \<Rightarrow> error + Quidquid" where
  "pickObject q key =
     (let fullKeyName = pickFullkeyName q key in
      case readProperty (quidQuid q) key of
        Inl e \<Rightarrow> Inl e
      | Inr v \<Rightarrow>
          if looseEqUndefined v then Inl (Error (fullKeyName @ '' must not be empty''))
          else if \<not> z_object v then Inl (Error (fullKeyName @ '' must be an object''))
          else Inr (new_Quidquid v (Some key)))"

definition pickObjectOptional :: "Quidquid \<Rightarrow> string \<Rightarrow> error + Quidquid option" where
  "pickObjectOptional q key =
     (case readProperty (quidQuid q) key of
        Inl e \<Rightarrow> Inl e
      | Inr v \<Rightarrow>
          if looseEqUndefined v then Inr None
          else (case pickObject q key of Inl e \<Rightarrow> Inl e | Inr c \<Rightarrow> Inr (Some c)))"

text \<open>
  \<open>value.map((quidQuid) => new Quidquid(quidQuid))\<close>: one accessor per element, built
  without a parent key. Calling \<open>map\<close> on a value that is not an array would throw.
\<close>

fun wrapAll :: "jsval \<Rightarrow> error + Quidquid list" where
  "wrapAll (JArr xs) = Inr (map (\<lambda>x. new_Quidquid x None) xs)"
| "wrapAll v = Inl TypeError"

definition pickObjectArray :: "Quidquid \<Rightarrow> string option \<Rightarrow> error + Quidquid list" where
  "pickObjectArray q key =
     (if noKey key then
        (let v = quidQuid q in
         if looseEqUndefined v then Inl (Error ''body must not be empty'')
         else if \<not> z_array z_object v then Inl (Error ''body must be an array of objects'')
         else wrapAll v)
      else
        (let fullKeyName = pickFullkeyName q (the key) in
         case readProperty (quidQuid q) (the key) of
           Inl e \<Rightarrow> Inl e
         | Inr v \<Rightarrow>
             if looseEqUndefined v then Inl (Error (fullKeyName @ '' must not be empty''))
             else if \<not> z_array z_object v
               then Inl (Error (fullKeyName @ '' must be an array of objects''))
             else wrapAll v))"

definition pickObjectArrayOptional :: "Quidquid \<Rightarrow> string \<Rightarrow> error + Quidquid list option" where
  "pickObjectArrayOptional q key =
     (case readProperty (quidQuid q) key of
        Inl e \<Rightarrow> Inl e
      | Inr v \<Rightarrow>
          if looseEqUndefined v then Inr None
          else (case pickObjectArray q (Some key) of Inl e \<Rightarrow> Inl e | Inr cs \<Rightarrow> Inr (Some cs)))"

section \<open>The class with the \<open>get\<close> methods\<close>

record Quidquid' =
  quidQuid' :: jsval
  parentObjectKey' :: "string option"

definition new_Quidquid' :: "jsval \<Rightarrow> string option \<Rightarrow> Quidquid'" where
  "new_Quidquid' v k = \<lparr>quidQuid' = v, parentObjectKey' = k\<rparr>"

definition from' :: "jsval \<Rightarrow> Quidquid'" where
  "from' v = new_Quidquid' v None"

text \<open>The same test of the parent key as in the first class.\<close>

definition getFullkeyName :: "Quidquid' \<Rightarrow> string \<Rightarrow> string" where
  "getFullkeyName q key =
     (case parentObjectKey' q of
        None \<Rightarrow> key
      | Some p \<Rightarrow> if p = [] then key else p @ ''.'' @ key)"

definition getString :: "Quidquid' \<Rightarrow> string \<Rightarrow> error + jsval" where
  "getString q key =
     (case readProperty (quidQuid' q) key of
        Inl e \<Rightarrow> Inl e
      | Inr v \<Rightarrow>
          let fullKeyName = getFullkeyName q key in
          if \<not> truthy v then Inl (Error (fullKeyName @ '' must not be empty''))
          else if \<not> z_string v then Inl (Error (fullKeyName @ '' must be a string''))
          else Inr v)"

definition getStringOptional :: "Quidquid' \<Rightarrow> string \<Rightarrow> error + jsval" where
  "getStringOptional q key =
     (case readProperty (quidQuid' q) key of
        Inl e \<Rightarrow> Inl e
      | Inr v \<Rightarrow> if \<not> truthy v then Inr JUndefined else getString q key)"

definition getStringArray :: "Quidquid' \<Rightarrow> string option \<Rightarrow> error + jsval" where
  "getStringArray q key =
     (if noKey key then
        (let v = quidQuid' q in
         if looseEqUndefined v then Inl (Error ''body must not be empty'')
         else if \<not> z_array z_string v then Inl (Error ''body must be an array of strings'')
         else Inr v)
      else
        (let fullKeyName = getFullkeyName q (the key) in
         case readProperty (quidQuid' q) (the key) of
           Inl e \<Rightarrow> Inl e
         | Inr v \<Rightarrow>
             if looseEqUndefined v then Inl (Error (fullKeyName @ '' must not be empty''))
             else if \<not> z_array z_string v
               then Inl (Error (fullKeyName @ '' must be an array of strings''))
             else Inr v))"

definition getStringArrayOptional :: "Quidquid' \<Rightarrow> string \<Rightarrow> error + jsval" where
  "getStringArrayOptional q key =
     (case readProperty (quidQuid' q) key of
        Inl e \<Rightarrow> Inl e
      | Inr v \<Rightarrow> if looseEqUndefined v then Inr JUndefined else getStringArray q (Some key))"

definition getNumber :: "Quidquid' \<Rightarrow> string \<Rightarrow> error + jsval" where
  "getNumber q key =
     (let fullKeyName = getFullkeyName q key in
      case readProperty (quidQuid' q) key of
        Inl e \<Rightarrow> Inl e
      | Inr v \<Rightarrow>
          if looseEqUndefined v then Inl (Error (fullKeyName @ '' must not be empty''))
          else if \<not> z_number v then Inl (Error (fullKeyName @ '' must be a number''))
          else Inr v)"

definition getNumberOptional :: "Quidquid' \<Rightarrow> string \<Rightarrow> error + jsval" where
  "getNumberOptional q key =
     (case readProperty (quidQuid' q) key of
        Inl e \<Rightarrow> Inl e
      | Inr v \<Rightarrow> if looseEqUndefined v then Inr JUndefined else getNumber q key)"

definition getNumberArray :: "Quidquid' \<Rightarrow> string option \<Rightarrow> error + jsval" where
  "getNumberArray q key =
     (if noKey key then
        (let v = quidQuid' q in
         if looseEqUndefined v then Inl (Error ''body must not be empty'')
         else if \<not> z_array z_number v then Inl (Error ''body must be an array of numbers'')
         else Inr v)
      else
        (case readProperty (quidQuid' q) (the key) of
           Inl e \<Rightarrow> Inl e
         | Inr v \<Rightarrow>
             let fullKeyName = getFullkeyName q (the key) in
             if looseEqUndefined v then Inl (Error (fullKeyName @ '' must not be empty''))
             else if \<not> z_array z_number v
               then Inl (Error (fullKeyName @ '' must be an array of numbers''))
             else Inr v))"

definition getNumberArrayOptional :: "Quidquid' \<Rightarrow> string \<Rightarrow> error + jsval" where
  "getNumberArrayOptional q key =
     (case readProperty (quidQuid' q) key of
        Inl e \<Rightarrow> Inl e
      | Inr v \<Rightarrow> if looseEqUndefined v then Inr JUndefined else getNumberArray q (Some key))"

definition getBoolean :: "Quidquid' \<Rightarrow> string \<Rightarrow> error + jsval" where
  "getBoolean q key =
     (let fullKeyName = getFullkeyName q key in
      case readProperty (quidQuid' q) key of
        Inl e \<Rightarrow> Inl e
      | Inr v \<Rightarrow>
          if looseEqUndefined v then Inl (Error (fullKeyName @ '' must not be empty''))
          else if \<not> z_boolean v then Inl (Error (fullKeyName @ '' must be a boolean''))
          else Inr v)"

definition getBooleanOptional :: "Quidquid' \<Rightarrow> string \<Rightarrow> error + jsval" where
  "getBooleanOptional q key =
     (case readProperty (quidQuid' q) key of
        Inl e \<Rightarrow> Inl e
      | Inr v \<Rightarrow> if looseEqUndefined v then Inr JUndefined else getBoolean q key)"

definition getObject :: "Quidquid' \<Rightarrow> string \<Rightarrow> error + Quidquid'" where
  "getObject q key =
     (let fullKeyName = getFullkeyName q key in
      case readProperty (quidQuid' q) key of
        Inl e \<Rightarrow> Inl e
      | Inr v \<Rightarrow>
          if looseEqUndefined v then Inl (Error (fullKeyName @ '' must not be empty''))
          else if \<not> z_object v then Inl (Error (fullKeyName @ '' must be an object''))
          else Inr (new_Quidquid' v (Some key)))"

definition getObjectOptional :: "Quidquid' \<Rightarrow> string \<Rightarrow> error + Quidquid' option" where
  "getObjectOptional q key =
     (case readProperty (quidQuid' q) key of
        Inl e \<Rightarrow> Inl e
      | Inr v \<Rightarrow>
          if looseEqUndefined v then Inr None
          else (case getObject q key of Inl e \<Rightarrow> Inl e | Inr c \<Rightarrow> Inr (Some c)))"

fun wrapAll' :: "jsval \<Rightarrow> error + Quidquid' list" where
  "wrapAll' (JArr xs) = Inr (map (\<lambda>x. new_Quidquid' x None) xs)"
| "wrapAll' v = Inl TypeError"

definition getObjectArray :: "Quidquid' \<Rightarrow> string option \<Rightarrow> error + Quidquid' list" where
  "getObjectArray q key =
     (if noKey key then
        (let v = quidQuid' q in
         if looseEqUndefined v then Inl (Error ''body must not be empty'')
         else if \<not> z_array z_object v then Inl (Error ''body must be an array of objects'')
         else wrapAll' v)
      else
        (let fullKeyName = getFullkeyName q (the key) in
         case readProperty (quidQuid' q) (the key) of
           Inl e \<Rightarrow> Inl e
         | Inr v \<Rightarrow>
             if looseEqUndefined v then Inl (Error (fullKeyName @ '' must not be empty''))
             else if \<not> z_array z_object v
               then Inl (Error (fullKeyName @ '' must be an array of objects''))
             else wrapAll' v))"

definition getObjectArrayOptional :: "Quidquid' \<Rightarrow> string \<Rightarrow> error + Quidquid' list option" where
  "getObjectArrayOptional q key =
     (case readProperty (quidQuid' q) key of
        Inl e \<Rightarrow> Inl e
      | Inr v \<Rightarrow>
          if looseEqUndefined v then Inr None
          else (case getObjectArray q (Some key) of Inl e \<Rightarrow> Inl e | Inr cs \<Rightarrow> Inr (Some cs)))"

section \<open>Accessor objects on the heap\<close>

text \<open>
  An accessor is an object with two fields. Here the class is written once more with the
  heap of the accessor objects passed through every statement: \<open>this\<close> is an address, a
  field is read from the object at that address, an assignment to a field updates the
  heap, and \<open>new\<close> allocates. Each method returns its result, or the error it throws,
  together with the heap it leaves behind.
\<close>

type_synonym heap = "Quidquid list"

text \<open>\<open>new\<close> allocates an object whose fields are still \<open>undefined\<close>.\<close>

definition allocate :: "heap \<Rightarrow> nat \<times> heap" where
  "allocate h = (length h, h @ [\<lparr>quidQuid = JUndefined, parentObjectKey = None\<rparr>])"

text \<open>
  The constructor: \<open>this.quidQuid = quidQuid; this.parentObjectKey = parentObjectKey;\<close>,
  the only two assignments of the class.
\<close>

definition constructor_st :: "nat \<Rightarrow> jsval \<Rightarrow> string option \<Rightarrow> heap \<Rightarrow> heap" where
  "constructor_st this v k h =
     (let h1 = h[this := (h ! this)\<lparr>quidQuid := v\<rparr>];
          h2 = h1[this := (h1 ! this)\<lparr>parentObjectKey := k\<rparr>]
      in h2)"

definition new_st :: "jsval \<Rightarrow> string option \<Rightarrow> heap \<Rightarrow> nat \<times> heap" where
  "new_st v k h = (case allocate h of (this, h1) \<Rightarrow> (this, constructor_st this v k h1))"

definition from_st :: "jsval \<Rightarrow> heap \<Rightarrow> nat \<times> heap" where
  "from_st v h = new_st v None h"

definition pickFullkeyName_st :: "nat \<Rightarrow> string \<Rightarrow> heap \<Rightarrow> string \<times> heap" where
  "pickFullkeyName_st this key h =
     (case parentObjectKey (h ! this) of
        None \<Rightarrow> (key, h)
      | Some p \<Rightarrow> if p = [] then (key, h) else (p @ ''.'' @ key, h))"

definition pickString_st :: "nat \<Rightarrow> string \<Rightarrow> heap \<Rightarrow> (error + jsval) \<times> heap" where
  "pickString_st this key h =
     (case readProperty (quidQuid (h ! this)) key of
        Inl e \<Rightarrow> (Inl e, h)
      | Inr v \<Rightarrow>
          (case pickFullkeyName_st this key h of
             (fullKeyName, h1) \<Rightarrow>
               if \<not> truthy v then (Inl (Error (fullKeyName @ '' must not be empty'')), h1)
               else if \<not> z_string v then (Inl (Error (fullKeyName @ '' must be a string'')), h1)
               else (Inr v, h1)))"

definition pickStringOptional_st :: "nat \<Rightarrow> string \<Rightarrow> heap \<Rightarrow> (error + jsval) \<times> heap" where
  "pickStringOptional_st this key h =
     (case readProperty (quidQuid (h ! this)) key of
        Inl e \<Rightarrow> (Inl e, h)
      | Inr v \<Rightarrow> if \<not> truthy v then (Inr JUndefined, h) else pickString_st this key h)"

definition pickStringArray_st ::
  "nat \<Rightarrow> string option \<Rightarrow> heap \<Rightarrow> (error + jsval) \<times> heap" where
  "pickStringArray_st this key h =
     (if noKey key then
        (let v = quidQuid (h ! this) in
         if looseEqUndefined v then (Inl (Error ''body must not be empty''), h)
         else if \<not> z_array z_string v
           then (Inl (Error ''body must be an array of strings''), h)
         else (Inr v, h))
      else
        (case pickFullkeyName_st this (the key) h of
           (fullKeyName, h1) \<Rightarrow>
             (case readProperty (quidQuid (h1 ! this)) (the key) of
                Inl e \<Rightarrow> (Inl e, h1)
              | Inr v \<Rightarrow>
                  if looseEqUndefined v
                    then (Inl (Error (fullKeyName @ '' must not be empty'')), h1)
                  else if \<not> z_array z_string v
                    then (Inl (Error (fullKeyName @ '' must be an array of strings'')), h1)
                  else (Inr v, h1))))"

definition pickStringArrayOptional_st ::
  "nat \<Rightarrow> string \<Rightarrow> heap \<Rightarrow> (error + jsval) \<times> heap" where
  "pickStringArrayOptional_st this key h =
     (case readProperty (quidQuid (h ! this)) key of
        Inl e \<Rightarrow> (Inl e, h)
      | Inr v \<Rightarrow>
          if looseEqUndefined v then (Inr JUndefined, h)
          else pickStringArray_st this (Some key) h)"

definition pickNumber_st :: "nat \<Rightarrow> string \<Rightarrow> heap \<Rightarrow> (error + jsval) \<times> heap" where
  "pickNumber_st this key h =
     (case pickFullkeyName_st this key h of
        (fullKeyName, h1) \<Rightarrow>
          (case readProperty (quidQuid (h1 ! this)) key of
             Inl e \<Rightarrow> (Inl e, h1)
           | Inr v \<Rightarrow>
               if looseEqUndefined v
                 then (Inl (Error (fullKeyName @ '' must not be empty'')), h1)
               else if \<not> z_number v then (Inl (Error (fullKeyName @ '' must be a number'')), h1)
               else (Inr v, h1)))"

definition pickNumberOptional_st :: "nat \<Rightarrow> string \<Rightarrow> heap \<Rightarrow> (error + jsval) \<times> heap" where
  "pickNumberOptional_st this key h =
     (case readProperty (quidQuid (h ! this)) key of
        Inl e \<Rightarrow> (Inl e, h)
      | Inr v \<Rightarrow> if looseEqUndefined v then (Inr JUndefined, h) else pickNumber_st this key h)"

definition pickNumberArray_st ::
  "nat \<Rightarrow> string option \<Rightarrow> heap \<Rightarrow> (error + jsval) \<times> heap" where
  "pickNumberArray_st this key h =
     (if noKey key then
        (let v = quidQuid (h ! this) in
         if looseEqUndefined v then (Inl (Error ''body must not be empty''), h)
         else if \<not> z_array z_number v
           then (Inl (Error ''body must be an array of numbers''), h)
         else (Inr v, h))
      else
        (case readProperty (quidQuid (h ! this)) (the key) of
           Inl e \<Rightarrow> (Inl e, h)
         | Inr v \<Rightarrow>
             (case pickFullkeyName_st this (the key) h of
                (fullKeyName, h1) \<Rightarrow>
                  if looseEqUndefined v
                    then (Inl (Error (fullKeyName @ '' must not be empty'')), h1)
                  else if \<not> z_array z_number v
                    then (Inl (Error (fullKeyName @ '' must be an array of numbers'')), h1)
                  else (Inr v, h1))))"

definition pickNumberArrayOptional_st ::
  "nat \<Rightarrow> string \<Rightarrow> heap \<Rightarrow> (error + jsval) \<times> heap" where
  "pickNumberArrayOptional_st this key h =
     (case readProperty (quidQuid (h ! this)) key of
        Inl e \<Rightarrow> (Inl e, h)
      | Inr v \<Rightarrow>
          if looseEqUndefined v then (Inr JUndefined, h)
          else pickNumberArray_st this (Some key) h)"

definition pickBoolean_st :: "nat \<Rightarrow> string \<Rightarrow> heap \<Rightarrow> (error + jsval) \<times> heap" where
  "pickBoolean_st this key h =
     (case pickFullkeyName_st this key h of
        (fullKeyName, h1) \<Rightarrow>
          (case readProperty (quidQuid (h1 ! this)) key of
             Inl e \<Rightarrow> (Inl e, h1)
           | Inr v \<Rightarrow>
               if looseEqUndefined v
                 then (Inl (Error (fullKeyName @ '' must not be empty'')), h1)
               else if \<not> z_boolean v
                 then (Inl (Error (fullKeyName @ '' must be a boolean'')), h1)
               else (Inr v, h1)))"

definition pickBooleanOptional_st :: "nat \<Rightarrow> string \<Rightarrow> heap \<Rightarrow> (error + jsval) \<times> heap" where
  "pickBooleanOptional_st this key h =
     (case readProperty (quidQuid (h ! this)) key of
        Inl e \<Rightarrow> (Inl e, h)
      | Inr v \<Rightarrow> if looseEqUndefined v then (Inr JUndefined, h) else pickBoolean_st this key h)"

text \<open>A method that returns an accessor returns the address of the new object.\<close>

definition pickObject_st :: "nat \<Rightarrow> string \<Rightarrow> heap \<Rightarrow> (error + nat) \<times> heap" where
  "pickObject_st this key h =
     (case pickFullkeyName_st this key h of
        (fullKeyName, h1) \<Rightarrow>
          (case readProperty (quidQuid (h1 ! this)) key of
             Inl e \<Rightarrow> (Inl e, h1)
           | Inr v \<Rightarrow>
               if looseEqUndefined v
                 then (Inl (Error (fullKeyName @ '' must not be empty'')), h1)
               else if \<not> z_object v
                 then (Inl (Error (fullKeyName @ '' must be an object'')), h1)
               else (case new_st v (Some key) h1 of (c, h2) \<Rightarrow> (Inr c, h2))))"

definition pickObjectOptional_st ::
  "nat \<Rightarrow> string \<Rightarrow> heap \<Rightarrow> (error + nat option) \<times> heap" where
  "pickObjectOptional_st this key h =
     (case readProperty (quidQuid (h ! this)) key of
        Inl e \<Rightarrow> (Inl e, h)
      | Inr v \<Rightarrow>
          if looseEqUndefined v then (Inr None, h)
          else (case pickObject_st this key h of
                  (Inl e, h1) \<Rightarrow> (Inl e, h1)
                | (Inr c, h1) \<Rightarrow> (Inr (Some c), h1)))"

text \<open>\<open>value.map((quidQuid) => new Quidquid(quidQuid))\<close>, element after element.\<close>

fun newAll_st :: "jsval list \<Rightarrow> heap \<Rightarrow> nat list \<times> heap" where
  "newAll_st [] h = ([], h)"
| "newAll_st (x # xs) h =
     (case new_st x None h of
        (c, h1) \<Rightarrow> (case newAll_st xs h1 of (cs, h2) \<Rightarrow> (c # cs, h2)))"

fun wrapAll_st :: "jsval \<Rightarrow> heap \<Rightarrow> (error + nat list) \<times> heap" where
  "wrapAll_st (JArr xs) h = (case newAll_st xs h of (cs, h1) \<Rightarrow> (Inr cs, h1))"
| "wrapAll_st v h = (Inl TypeError, h)"

definition pickObjectArray_st ::
  "nat \<Rightarrow> string option \<Rightarrow> heap \<Rightarrow> (error + nat list) \<times> heap" where
  "pickObjectArray_st this key h =
     (if noKey key then
        (let v = quidQuid (h ! this) in
         if looseEqUndefined v then (Inl (Error ''body must not be empty''), h)
         else if \<not> z_array z_object v
           then (Inl (Error ''body must be an array of objects''), h)
         else wrapAll_st v h)
      else
        (case pickFullkeyName_st this (the key) h of
           (fullKeyName, h1) \<Rightarrow>
             (case readProperty (quidQuid (h1 ! this)) (the key) of
                Inl e \<Rightarrow> (Inl e, h1)
              | Inr v \<Rightarrow>
                  if looseEqUndefined v
                    then (Inl (Error (fullKeyName @ '' must not be empty'')), h1)
                  else if \<not> z_array z_object v
                    then (Inl (Error (fullKeyName @ '' must be an array of objects'')), h1)
                  else wrapAll_st v h1)))"

definition pickObjectArrayOptional_st ::
  "nat \<Rightarrow> string \<Rightarrow> heap \<Rightarrow> (error + nat list option) \<times> heap" where
  "pickObjectArrayOptional_st this key h =
     (case readProperty (quidQuid (h ! this)) key of
        Inl e \<Rightarrow> (Inl e, h)
      | Inr v \<Rightarrow>
          if looseEqUndefined v then (Inr None, h)
          else (case pickObjectArray_st this (Some key) h of
                  (Inl e, h1) \<Rightarrow> (Inl e, h1)
                | (Inr cs, h1) \<Rightarrow> (Inr (Some cs), h1)))"

subsection \<open>Sequences of calls\<close>

datatype invocation =
    PickString string
  | PickStringOptional string
  | PickStringArray "string option"
  | PickStringArrayOptional string
  | PickNumber string
  | PickNumberOptional string
  | PickNumberArray "string option"
  | PickNumberArrayOptional string
  | PickBoolean string
  | PickBooleanOptional string
  | PickObject string
  | PickObjectOptional string
  | PickObjectArray "string option"
  | PickObjectArrayOptional string

text \<open>The heap a call leaves behind, whatever it returns or throws.\<close>

fun heapAfter :: "invocation \<Rightarrow> nat \<Rightarrow> heap \<Rightarrow> heap" where
  "heapAfter (PickString k) this h = snd (pickString_st this k h)"
| "heapAfter (PickStringOptional k) this h = snd (pickStringOptional_st this k h)"
| "heapAfter (PickStringArray k) this h = snd (pickStringArray_st this k h)"
| "heapAfter (PickStringArrayOptional k) this h = snd (pickStringArrayOptional_st this k h)"
| "heapAfter (PickNumber k) this h = snd (pickNumber_st this k h)"
| "heapAfter (PickNumberOptional k) this h = snd (pickNumberOptional_st this k h)"
| "heapAfter (PickNumberArray k) this h = snd (pickNumberArray_st this k h)"
| "heapAfter (PickNumberArrayOptional k) this h = snd (pickNumberArrayOptional_st this k h)"
| "heapAfter (PickBoolean k) this h = snd (pickBoolean_st this k h)"
| "heapAfter (PickBooleanOptional k) this h = snd (pickBooleanOptional_st this k h)"
| "heapAfter (PickObject k) this h = snd (pickObject_st this k h)"
| "heapAfter (PickObjectOptional k) this h = snd (pickObjectOptional_st this k h)"
| "heapAfter (PickObjectArray k) this h = snd (pickObjectArray_st this k h)"
| "heapAfter (PickObjectArrayOptional k) this h = snd (pickObjectArrayOptional_st this k h)"

text \<open>
  A sequence of calls, each on the accessor at some address; a call that throws leaves
  the caller free to go on with the next one. A call on an address at which there is no
  object is not a call of the program.
\<close>

fun run :: "heap \<Rightarrow> (nat \<times> invocation) list \<Rightarrow> heap option" where
  "run h [] = Some h"
| "run h ((this, m) # calls) =
     (if this < length h then run (heapAfter m this h) calls else None)"

section \<open>The two error kinds\<close>

text \<open>
  Both kinds are thrown as \<open>new Error(message)\<close>; the message tells them apart. A missing
  field is reported as \<open>... must not be empty\<close>, a value of the wrong type as
  \<open>... must be a string\<close>, \<open>... must be an array of numbers\<close> and so on.
\<close>

definition isMissingField :: "error + 'a \<Rightarrow> bool" where
  "isMissingField r =
     (case r of Inl (Error m) \<Rightarrow> suffix '' must not be empty'' m | _ \<Rightarrow> False)"

definition invalidTypePhrases :: "string list" where
  "invalidTypePhrases =
     ['' must be a string'', '' must be a number'', '' must be a boolean'',
      '' must be an object'', '' must be an array of strings'',
      '' must be an array of numbers'', '' must be an array of objects'']"

definition isInvalidType :: "error + 'a \<Rightarrow> bool" where
  "isInvalidType r =
     (case r of Inl (Error m) \<Rightarrow> list_ex (\<lambda>p. suffix p m) invalidTypePhrases | _ \<Rightarrow> False)"

text \<open>The accessor of the second class seen as one of the first.\<close>

definition toPick :: "Quidquid' \<Rightarrow> Quidquid" where
  "toPick g = \<lparr>quidQuid = quidQuid' g, parentObjectKey = parentObjectKey' g\<rparr>"

section \<open>Facts about the value checks\<close>

lemma z_string_iff: "z_string v \<longleftrightarrow> (\<exists>s. v = JStr s)"
  by (cases v) simp_all

lemma z_number_iff: "z_number v \<longleftrightarrow> (\<exists>r. v = JNum (Fin r))"
proof (cases v)
  case (JNum n)
  then show ?thesis by (cases n) simp_all
qed simp_all

lemma z_boolean_iff: "z_boolean v \<longleftrightarrow> (\<exists>b. v = JBool b)"
  by (cases v) simp_all

lemma z_object_iff:
  "z_object v \<longleftrightarrow> (\<exists>kvs. v = JObj kvs) \<or> (\<exists>p. v = JPrototype p \<and> p \<noteq> PFunction)"
  by (cases v) simp_all

lemma z_array_iff: "z_array e v \<longleftrightarrow> (\<exists>xs. v = JArr xs \<and> list_all e xs)"
  by (cases v) simp_all

lemma looseEqUndefined_iff: "looseEqUndefined v \<longleftrightarrow> v = JUndefined \<or> v = JNull"
  by (cases v) simp_all

lemma falsy_iff:
  "\<not> truthy v \<longleftrightarrow>
     v = JUndefined \<or> v = JNull \<or> v = JBool False \<or> v = JNum NaN \<or> v = JNum (Fin 0) \<or> v = JStr []"
proof (cases v)
  case (JNum n)
  then show ?thesis by (cases n) auto
qed auto

lemma all_strings_iff: "list_all z_string xs \<longleftrightarrow> (\<exists>ss. xs = map JStr ss)"
  by (simp add: list_all_iff z_string_iff ex_map_conv)

lemma all_numbers_iff: "list_all z_number xs \<longleftrightarrow> (\<exists>rs. xs = map (\<lambda>r. JNum (Fin r)) rs)"
  by (simp add: list_all_iff z_number_iff ex_map_conv)

lemma objects_accepted: "list_all z_object (map JObj os)"
  by (simp add: list_all_iff)

text \<open>The definitions that evaluate a property read on a given value and key.\<close>

lemmas read_defs =
  inherited_def lookupFrom_def ownOfPrototype_def objectMethods_def functionMethods_def
  arrayMethods_def stringMethods_def numberMethods_def booleanMethods_def indexed_def
  arrayIndex_def isDigit_def

lemma suffix_last: "suffix xs ys \<Longrightarrow> xs \<noteq> [] \<Longrightarrow> last ys = last xs"
  by (auto simp: suffix_def)

lemma not_missing_string [simp]: "\<not> suffix '' must not be empty'' (n @ '' must be a string'')"
  using suffix_last [of "'' must not be empty''" "n @ '' must be a string''"] by auto
lemma not_missing_number [simp]: "\<not> suffix '' must not be empty'' (n @ '' must be a number'')"
  using suffix_last [of "'' must not be empty''" "n @ '' must be a number''"] by auto
lemma not_missing_boolean [simp]: "\<not> suffix '' must not be empty'' (n @ '' must be a boolean'')"
  using suffix_last [of "'' must not be empty''" "n @ '' must be a boolean''"] by auto
lemma not_missing_object [simp]: "\<not> suffix '' must not be empty'' (n @ '' must be an object'')"
  using suffix_last [of "'' must not be empty''" "n @ '' must be an object''"] by auto
lemma not_missing_strings [simp]:
  "\<not> suffix '' must not be empty'' (n @ '' must be an array of strings'')"
  using suffix_last [of "'' must not be empty''" "n @ '' must be an array of strings''"] by auto
lemma not_missing_numbers [simp]:
  "\<not> suffix '' must not be empty'' (n @ '' must be an array of numbers'')"
  using suffix_last [of "'' must not be empty''" "n @ '' must be an array of numbers''"] by auto
lemma not_missing_objects [simp]:
  "\<not> suffix '' must not be empty'' (n @ '' must be an array of objects'')"
  using suffix_last [of "'' must not be empty''" "n @ '' must be an array of objects''"] by auto

lemma is_missing [simp]: "suffix '' must not be empty'' (n @ '' must not be empty'')"
  by (simp add: suffix_def)

section \<open>Properties of the accessors\<close>

text \<open>
  C1. Expected of \<open>pickObject(key)\<close>: the child's prefix is the full name of the field, so
  that three levels of nesting report the path \<open>a.b.c\<close>. The constructor's comment says
  the parent key serves to build full key paths in error messages, and \<open>pickObject\<close>
  computes the full name for its own messages; but it hands the child \<open>key\<close> alone.
  Evaluated on \<open>{a: {b: {}}}\<close>: the accessor for \<open>a\<close> names its field \<open>a.b\<close>, the
  accessor for \<open>b\<close> is built with prefix \<open>b\<close>, and the missing string \<open>c\<close> is reported
  as \<open>b.c must not be empty\<close>, a message in which \<open>a.b.c\<close> does not occur.
\<close>

theorem nested_path_loses_grandparent:
  "pickObject (Quidquid_from (JObj [(''a'', JObj [(''b'', JObj [])])])) ''a''
     = Inr \<lparr>quidQuid = JObj [(''b'', JObj [])], parentObjectKey = Some ''a''\<rparr>
   \<and> pickFullkeyName \<lparr>quidQuid = JObj [(''b'', JObj [])], parentObjectKey = Some ''a''\<rparr> ''b''
     = ''a.b''
   \<and> pickObject \<lparr>quidQuid = JObj [(''b'', JObj [])], parentObjectKey = Some ''a''\<rparr> ''b''
     = Inr \<lparr>quidQuid = JObj [], parentObjectKey = Some ''b''\<rparr>
   \<and> pickString \<lparr>quidQuid = JObj [], parentObjectKey = Some ''b''\<rparr> ''c''
     = Inl (Error ''b.c must not be empty'')
   \<and> \<not> sublist ''a.b.c'' ''b.c must not be empty''"
  by (simp add: pickObject_def pickString_def pickFullkeyName_def Quidquid_from_def
      new_Quidquid_def sublist_Cons_right prefix_Cons read_defs)

text \<open>
  C4. The required scalar accessors, given the value \<open>v\<close> read from the field.
  \<open>pickString\<close> returns a non-empty string unchanged, reports every falsy value
  (\<open>undefined\<close>, \<open>null\<close>, the empty string, \<open>0\<close>, \<open>NaN\<close>, \<open>false\<close>) as missing, and every
  other value as not a string. \<open>pickNumber\<close> returns a finite number unchanged and
  \<open>pickBoolean\<close> a boolean; both report \<open>undefined\<close> and \<open>null\<close> as missing, and every other
  value, \<open>NaN\<close> included, as of the wrong type. The messages are
  \<open><fullName> must not be empty\<close> and \<open><fullName> must be a <kind>\<close>, where the full name
  is the key alone for an accessor whose parent key is \<open>undefined\<close> or the empty string, and
  \<open>parent.key\<close> otherwise.
\<close>

theorem required_scalar_contract:
  assumes "readProperty (quidQuid q) key = Inr v"
  shows
    "(\<forall>s. v = JStr s \<and> s \<noteq> [] \<longrightarrow> pickString q key = Inr v)
   \<and> (v = JUndefined \<or> v = JNull \<or> v = JStr [] \<or> v = JNum (Fin 0) \<or> v = JNum NaN
        \<or> v = JBool False
      \<longrightarrow> pickString q key = Inl (Error (pickFullkeyName q key @ '' must not be empty'')))
   \<and> (truthy v \<and> (\<forall>s. v \<noteq> JStr s)
      \<longrightarrow> pickString q key = Inl (Error (pickFullkeyName q key @ '' must be a string'')))
   \<and> (\<forall>r. v = JNum (Fin r) \<longrightarrow> pickNumber q key = Inr v)
   \<and> (v = JUndefined \<or> v = JNull
      \<longrightarrow> pickNumber q key = Inl (Error (pickFullkeyName q key @ '' must not be empty'')))
   \<and> (v \<noteq> JUndefined \<and> v \<noteq> JNull \<and> (\<forall>r. v \<noteq> JNum (Fin r))
      \<longrightarrow> pickNumber q key = Inl (Error (pickFullkeyName q key @ '' must be a number'')))
   \<and> (\<forall>b. v = JBool b \<longrightarrow> pickBoolean q key = Inr v)
   \<and> (v = JUndefined \<or> v = JNull
      \<longrightarrow> pickBoolean q key = Inl (Error (pickFullkeyName q key @ '' must not be empty'')))
   \<and> (v \<noteq> JUndefined \<and> v \<noteq> JNull \<and> (\<forall>b. v \<noteq> JBool b)
      \<longrightarrow> pickBoolean q key = Inl (Error (pickFullkeyName q key @ '' must be a boolean'')))
   \<and> (parentObjectKey q = None \<or> parentObjectKey q = Some [] \<longrightarrow>
        pickFullkeyName q key = key)
   \<and> (\<forall>p. parentObjectKey q = Some p \<and> p \<noteq> [] \<longrightarrow> pickFullkeyName q key = p @ ''.'' @ key)"
proof -
  have str: "pickString q key =
      (if \<not> truthy v then Inl (Error (pickFullkeyName q key @ '' must not be empty''))
       else if \<not> z_string v then Inl (Error (pickFullkeyName q key @ '' must be a string''))
       else Inr v)"
    using assms by (simp add: pickString_def)
  have num: "pickNumber q key =
      (if looseEqUndefined v then Inl (Error (pickFullkeyName q key @ '' must not be empty''))
       else if \<not> z_number v then Inl (Error (pickFullkeyName q key @ '' must be a number''))
       else Inr v)"
    using assms by (simp add: pickNumber_def)
  have bool: "pickBoolean q key =
      (if looseEqUndefined v then Inl (Error (pickFullkeyName q key @ '' must not be empty''))
       else if \<not> z_boolean v then Inl (Error (pickFullkeyName q key @ '' must be a boolean''))
       else Inr v)"
    using assms by (simp add: pickBoolean_def)
  have s1: "\<forall>s. v = JStr s \<and> s \<noteq> [] \<longrightarrow> pickString q key = Inr v"
    by (auto simp: str)
  have s2: "v = JUndefined \<or> v = JNull \<or> v = JStr [] \<or> v = JNum (Fin 0) \<or> v = JNum NaN
        \<or> v = JBool False
      \<longrightarrow> pickString q key = Inl (Error (pickFullkeyName q key @ '' must not be empty''))"
    by (auto simp: str)
  have s3: "truthy v \<and> (\<forall>s. v \<noteq> JStr s)
      \<longrightarrow> pickString q key = Inl (Error (pickFullkeyName q key @ '' must be a string''))"
    by (simp add: str z_string_iff)
  have n1: "\<forall>r. v = JNum (Fin r) \<longrightarrow> pickNumber q key = Inr v"
    by (auto simp: num)
  have n2: "v = JUndefined \<or> v = JNull
      \<longrightarrow> pickNumber q key = Inl (Error (pickFullkeyName q key @ '' must not be empty''))"
    by (auto simp: num)
  have n3: "v \<noteq> JUndefined \<and> v \<noteq> JNull \<and> (\<forall>r. v \<noteq> JNum (Fin r))
      \<longrightarrow> pickNumber q key = Inl (Error (pickFullkeyName q key @ '' must be a number''))"
    by (simp add: num z_number_iff looseEqUndefined_iff)
  have b1: "\<forall>b. v = JBool b \<longrightarrow> pickBoolean q key = Inr v"
    by (auto simp: bool)
  have b2: "v = JUndefined \<or> v = JNull
      \<longrightarrow> pickBoolean q key = Inl (Error (pickFullkeyName q key @ '' must not be empty''))"
    by (auto simp: bool)
  have b3: "v \<noteq> JUndefined \<and> v \<noteq> JNull \<and> (\<forall>b. v \<noteq> JBool b)
      \<longrightarrow> pickBoolean q key = Inl (Error (pickFullkeyName q key @ '' must be a boolean''))"
    by (simp add: bool z_boolean_iff looseEqUndefined_iff)
  have p1: "parentObjectKey q = None \<or> parentObjectKey q = Some [] \<longrightarrow>
        pickFullkeyName q key = key"
    by (auto simp: pickFullkeyName_def)
  have p2: "\<forall>p. parentObjectKey q = Some p \<and> p \<noteq> [] \<longrightarrow> pickFullkeyName q key = p @ ''.'' @ key"
    by (auto simp: pickFullkeyName_def)
  from s1 s2 s3 n1 n2 n3 b1 b2 b3 p1 p2 show ?thesis by blast
qed

theorem required_scalar_contract_witness:
  "pickNumber \<lparr>quidQuid = JObj [(''age'', JNum (Fin 30))], parentObjectKey = Some ''user''\<rparr> ''age''
     = Inr (JNum (Fin 30))
   \<and> pickString \<lparr>quidQuid = JObj [(''age'', JNum (Fin 30))], parentObjectKey = Some ''user''\<rparr> ''age''
     = Inl (Error ''user.age must be a string'')
   \<and> pickBoolean \<lparr>quidQuid = JObj [(''age'', JNum (Fin 30))], parentObjectKey = Some ''user''\<rparr> ''age''
     = Inl (Error ''user.age must be a boolean'')
   \<and> pickString \<lparr>quidQuid = JObj [(''age'', JNum (Fin 30))], parentObjectKey = Some ''user''\<rparr> ''name''
     = Inl (Error ''user.name must not be empty'')
   \<and> pickNumber \<lparr>quidQuid = JObj [(''age'', JNum (Fin 30))], parentObjectKey = Some ''user''\<rparr> ''name''
     = Inl (Error ''user.name must not be empty'')
   \<and> pickBoolean \<lparr>quidQuid = JObj [(''age'', JNum (Fin 30))], parentObjectKey = Some ''user''\<rparr> ''name''
     = Inl (Error ''user.name must not be empty'')
   \<and> pickString (Quidquid_from (JObj [(''ok'', JBool True), (''name'', JStr ''Ann'')])) ''name''
     = Inr (JStr ''Ann'')
   \<and> pickBoolean (Quidquid_from (JObj [(''ok'', JBool True), (''name'', JStr ''Ann'')])) ''ok''
     = Inr (JBool True)
   \<and> pickNumber (Quidquid_from (JObj [(''ok'', JBool True), (''name'', JStr ''Ann'')])) ''ok''
     = Inl (Error ''ok must be a number'')
   \<and> pickString (Quidquid_from (JObj [])) ''toString''
     = Inl (Error ''toString must be a string'')
   \<and> pickNumber \<lparr>quidQuid = JObj [(''y'', JStr ''no'')], parentObjectKey = Some []\<rparr> ''y''
     = Inl (Error ''y must be a number'')"
proof -
  let ?q = "\<lparr>quidQuid = JObj [(''age'', JNum (Fin 30))], parentObjectKey = Some ''user''\<rparr>"
  let ?r = "Quidquid_from (JObj [(''ok'', JBool True), (''name'', JStr ''Ann'')])"
  let ?e = "Quidquid_from (JObj [])"
  let ?c = "\<lparr>quidQuid = JObj [(''y'', JStr ''no'')], parentObjectKey = Some []\<rparr>"
  have age: "readProperty (quidQuid ?q) ''age'' = Inr (JNum (Fin 30))" by simp
  have name: "readProperty (quidQuid ?q) ''name'' = Inr JUndefined"
    by (simp add: read_defs)
  have rname: "readProperty (quidQuid ?r) ''name'' = Inr (JStr ''Ann'')"
    by (simp add: Quidquid_from_def new_Quidquid_def)
  have rok: "readProperty (quidQuid ?r) ''ok'' = Inr (JBool True)"
    by (simp add: Quidquid_from_def new_Quidquid_def)
  have root: "parentObjectKey ?r = None" "parentObjectKey ?e = None"
    by (simp_all add: Quidquid_from_def new_Quidquid_def)
  have inh: "readProperty (quidQuid ?e) ''toString'' = Inr (JFunction KObject ''toString'' 0)"
    by (simp add: Quidquid_from_def new_Quidquid_def read_defs)
  have y: "readProperty (quidQuid ?c) ''y'' = Inr (JStr ''no'')" by simp
  have a: "pickNumber ?q ''age'' = Inr (JNum (Fin 30))
     \<and> pickString ?q ''age'' = Inl (Error ''user.age must be a string'')
     \<and> pickBoolean ?q ''age'' = Inl (Error ''user.age must be a boolean'')"
    using required_scalar_contract [OF age] by (auto simp: pickFullkeyName_def)
  have b: "pickString ?q ''name'' = Inl (Error ''user.name must not be empty'')
     \<and> pickNumber ?q ''name'' = Inl (Error ''user.name must not be empty'')
     \<and> pickBoolean ?q ''name'' = Inl (Error ''user.name must not be empty'')"
    using required_scalar_contract [OF name] by (auto simp: pickFullkeyName_def)
  have c: "pickString ?r ''name'' = Inr (JStr ''Ann'')"
    using required_scalar_contract [OF rname] by auto
  have d: "pickBoolean ?r ''ok'' = Inr (JBool True)
     \<and> pickNumber ?r ''ok'' = Inl (Error ''ok must be a number'')"
    using required_scalar_contract [OF rok] root by (auto simp: pickFullkeyName_def)
  have e: "pickString ?e ''toString'' = Inl (Error ''toString must be a string'')"
    using required_scalar_contract [OF inh] root by (auto simp: pickFullkeyName_def)
  have f: "pickNumber ?c ''y'' = Inl (Error ''y must be a number'')"
    using required_scalar_contract [OF y] by (auto simp: pickFullkeyName_def)
  from a b c d e f show ?thesis by simp
qed

text \<open>
  Were only \<open>undefined\<close>, \<open>null\<close> and the empty string absent for a string field, every
  other value that is not a string would get the wrong-type error. On \<open>{x: 0}\<close> the field
  holds \<open>0\<close>, and \<open>pickString("x")\<close> reports it as missing: the test \<open>!value\<close> comes
  before the schema check. And a field holding the number \<open>NaN\<close> is not returned by
  \<open>pickNumber\<close>: the schema rejects it.
\<close>

theorem pickString_zero_reported_missing:
  "readProperty (quidQuid (Quidquid_from (JObj [(''x'', JNum (Fin 0))]))) ''x'' = Inr (JNum (Fin 0))
   \<and> pickString (Quidquid_from (JObj [(''x'', JNum (Fin 0))])) ''x''
       = Inl (Error ''x must not be empty'')
   \<and> pickString (Quidquid_from (JObj [(''x'', JNum (Fin 0))])) ''x''
       \<noteq> Inl (Error ''x must be a string'')
   \<and> \<not> isInvalidType (pickString (Quidquid_from (JObj [(''x'', JNum (Fin 0))])) ''x'')
   \<and> pickNumber (Quidquid_from (JObj [(''x'', JNum NaN)])) ''x''
       = Inl (Error ''x must be a number'')"
  by (simp add: pickString_def pickNumber_def pickFullkeyName_def Quidquid_from_def
      new_Quidquid_def isInvalidType_def invalidTypePhrases_def suffix_def)

section \<open>What each accessor does with the value it reads\<close>

lemma pickString_read:
  "readProperty (quidQuid q) key = Inr v \<Longrightarrow>
   pickString q key =
     (if \<not> truthy v then Inl (Error (pickFullkeyName q key @ '' must not be empty''))
      else if \<not> z_string v then Inl (Error (pickFullkeyName q key @ '' must be a string''))
      else Inr v)"
  by (simp add: pickString_def)

lemma pickNumber_read:
  "readProperty (quidQuid q) key = Inr v \<Longrightarrow>
   pickNumber q key =
     (if looseEqUndefined v then Inl (Error (pickFullkeyName q key @ '' must not be empty''))
      else if \<not> z_number v then Inl (Error (pickFullkeyName q key @ '' must be a number''))
      else Inr v)"
  by (simp add: pickNumber_def)

lemma pickBoolean_read:
  "readProperty (quidQuid q) key = Inr v \<Longrightarrow>
   pickBoolean q key =
     (if looseEqUndefined v then Inl (Error (pickFullkeyName q key @ '' must not be empty''))
      else if \<not> z_boolean v then Inl (Error (pickFullkeyName q key @ '' must be a boolean''))
      else Inr v)"
  by (simp add: pickBoolean_def)

lemma pickObject_read:
  "readProperty (quidQuid q) key = Inr v \<Longrightarrow>
   pickObject q key =
     (if looseEqUndefined v then Inl (Error (pickFullkeyName q key @ '' must not be empty''))
      else if \<not> z_object v then Inl (Error (pickFullkeyName q key @ '' must be an object''))
      else Inr (new_Quidquid v (Some key)))"
  by (simp add: pickObject_def)

lemma pickStringArray_body:
  "noKey key \<Longrightarrow>
   pickStringArray q key =
     (if looseEqUndefined (quidQuid q) then Inl (Error ''body must not be empty'')
      else if \<not> z_array z_string (quidQuid q)
        then Inl (Error ''body must be an array of strings'')
      else Inr (quidQuid q))"
  by (simp add: pickStringArray_def)

lemma pickNumberArray_body:
  "noKey key \<Longrightarrow>
   pickNumberArray q key =
     (if looseEqUndefined (quidQuid q) then Inl (Error ''body must not be empty'')
      else if \<not> z_array z_number (quidQuid q)
        then Inl (Error ''body must be an array of numbers'')
      else Inr (quidQuid q))"
  by (simp add: pickNumberArray_def)

lemma pickObjectArray_body:
  "noKey key \<Longrightarrow>
   pickObjectArray q key =
     (if looseEqUndefined (quidQuid q) then Inl (Error ''body must not be empty'')
      else if \<not> z_array z_object (quidQuid q)
        then Inl (Error ''body must be an array of objects'')
      else wrapAll (quidQuid q))"
  by (simp add: pickObjectArray_def)

lemma pickStringArray_read:
  "key \<noteq> [] \<Longrightarrow> readProperty (quidQuid q) key = Inr v \<Longrightarrow>
   pickStringArray q (Some key) =
     (if looseEqUndefined v then Inl (Error (pickFullkeyName q key @ '' must not be empty''))
      else if \<not> z_array z_string v
        then Inl (Error (pickFullkeyName q key @ '' must be an array of strings''))
      else Inr v)"
  by (simp add: pickStringArray_def noKey_def)

lemma pickNumberArray_read:
  "key \<noteq> [] \<Longrightarrow> readProperty (quidQuid q) key = Inr v \<Longrightarrow>
   pickNumberArray q (Some key) =
     (if looseEqUndefined v then Inl (Error (pickFullkeyName q key @ '' must not be empty''))
      else if \<not> z_array z_number v
        then Inl (Error (pickFullkeyName q key @ '' must be an array of numbers''))
      else Inr v)"
  by (simp add: pickNumberArray_def noKey_def)

lemma pickObjectArray_read:
  "key \<noteq> [] \<Longrightarrow> readProperty (quidQuid q) key = Inr v \<Longrightarrow>
   pickObjectArray q (Some key) =
     (if looseEqUndefined v then Inl (Error (pickFullkeyName q key @ '' must not be empty''))
      else if \<not> z_array z_object v
        then Inl (Error (pickFullkeyName q key @ '' must be an array of objects''))
      else wrapAll v)"
  by (simp add: pickObjectArray_def noKey_def)

lemma readable_not_nullish:
  "readProperty w key = Inr v \<Longrightarrow> \<not> looseEqUndefined w"
  by (cases w) simp_all

lemma wrapAll_not_missing: "\<not> isMissingField (wrapAll v)"
  by (cases v) (simp_all add: isMissingField_def)

lemma body_missing_iff:
  "isMissingField (Inl (Error ''body must not be empty'') :: error + 'a)"
  by (simp add: isMissingField_def suffix_def)

lemma body_not_missing:
  "\<not> suffix '' must not be empty'' ''body must be an array of strings''"
  "\<not> suffix '' must not be empty'' ''body must be an array of numbers''"
  "\<not> suffix '' must not be empty'' ''body must be an array of objects''"
  using not_missing_strings [of "''body''"] not_missing_numbers [of "''body''"]
    not_missing_objects [of "''body''"] by simp_all

lemma emptiness_policy_keyed:
  assumes "readProperty (quidQuid q) key = Inr v"
  shows
    "(isMissingField (pickString q key) \<longleftrightarrow>
        v = JUndefined \<or> v = JNull \<or> v = JStr [] \<or> v = JNum (Fin 0) \<or> v = JNum NaN
          \<or> v = JBool False)
   \<and> (v = JStr [] \<longrightarrow>
        pickString q key = Inl (Error (pickFullkeyName q key @ '' must not be empty'')))
   \<and> (isMissingField (pickNumber q key) \<longleftrightarrow> v = JUndefined \<or> v = JNull)
   \<and> (isMissingField (pickBoolean q key) \<longleftrightarrow> v = JUndefined \<or> v = JNull)
   \<and> (isMissingField (pickObject q key) \<longleftrightarrow> v = JUndefined \<or> v = JNull)
   \<and> (isMissingField (pickStringArray q (Some key)) \<longrightarrow> v = JUndefined \<or> v = JNull)
   \<and> (isMissingField (pickNumberArray q (Some key)) \<longrightarrow> v = JUndefined \<or> v = JNull)
   \<and> (isMissingField (pickObjectArray q (Some key)) \<longrightarrow> v = JUndefined \<or> v = JNull)
   \<and> (key \<noteq> [] \<and> (v = JUndefined \<or> v = JNull) \<longrightarrow>
        isMissingField (pickStringArray q (Some key))
        \<and> isMissingField (pickNumberArray q (Some key))
        \<and> isMissingField (pickObjectArray q (Some key)))
   \<and> (v = JNum (Fin 0) \<longrightarrow> pickNumber q key = Inr v)
   \<and> (v = JBool False \<longrightarrow> pickBoolean q key = Inr v)
   \<and> (v = JObj [] \<longrightarrow> pickObject q key = Inr (new_Quidquid v (Some key)))
   \<and> (key \<noteq> [] \<and> v = JArr [] \<longrightarrow>
        pickStringArray q (Some key) = Inr v
        \<and> pickNumberArray q (Some key) = Inr v
        \<and> pickObjectArray q (Some key) = Inr [])"
proof -
  note rd = pickString_read [OF assms] pickNumber_read [OF assms] pickBoolean_read [OF assms]
    pickObject_read [OF assms]
  have nn: "\<not> looseEqUndefined (quidQuid q)"
    using assms by (rule readable_not_nullish)
  have s1: "isMissingField (pickString q key) \<longleftrightarrow>
        v = JUndefined \<or> v = JNull \<or> v = JStr [] \<or> v = JNum (Fin 0) \<or> v = JNum NaN
          \<or> v = JBool False"
    using falsy_iff [of v] by (simp add: rd isMissingField_def)
  have s2: "v = JStr [] \<longrightarrow>
        pickString q key = Inl (Error (pickFullkeyName q key @ '' must not be empty''))"
    by (simp add: rd)
  have n: "isMissingField (pickNumber q key) \<longleftrightarrow> v = JUndefined \<or> v = JNull"
    by (simp add: rd isMissingField_def looseEqUndefined_iff)
  have b: "isMissingField (pickBoolean q key) \<longleftrightarrow> v = JUndefined \<or> v = JNull"
    by (simp add: rd isMissingField_def looseEqUndefined_iff)
  have ob: "isMissingField (pickObject q key) \<longleftrightarrow> v = JUndefined \<or> v = JNull"
    by (simp add: rd isMissingField_def looseEqUndefined_iff)
  have sa: "isMissingField (pickStringArray q (Some key)) \<longrightarrow> v = JUndefined \<or> v = JNull"
  proof (cases "key = []")
    case True
    then have "noKey (Some key)" by (simp add: noKey_def)
    then show ?thesis
      using nn by (simp add: pickStringArray_body isMissingField_def body_not_missing)
  next
    case False
    then show ?thesis
      using pickStringArray_read [OF False assms]
      by (simp add: isMissingField_def looseEqUndefined_iff)
  qed
  have na: "isMissingField (pickNumberArray q (Some key)) \<longrightarrow> v = JUndefined \<or> v = JNull"
  proof (cases "key = []")
    case True
    then have "noKey (Some key)" by (simp add: noKey_def)
    then show ?thesis
      using nn by (simp add: pickNumberArray_body isMissingField_def body_not_missing)
  next
    case False
    then show ?thesis
      using pickNumberArray_read [OF False assms]
      by (simp add: isMissingField_def looseEqUndefined_iff)
  qed
  have oa: "isMissingField (pickObjectArray q (Some key)) \<longrightarrow> v = JUndefined \<or> v = JNull"
  proof (cases "key = []")
    case True
    then have "noKey (Some key)" by (simp add: noKey_def)
    then show ?thesis
      using nn wrapAll_not_missing [of "quidQuid q"]
      by (simp add: pickObjectArray_body isMissingField_def body_not_missing)
  next
    case False
    then show ?thesis
      using pickObjectArray_read [OF False assms] wrapAll_not_missing [of v]
      by (simp add: isMissingField_def looseEqUndefined_iff)
  qed
  have arr: "key \<noteq> [] \<and> (v = JUndefined \<or> v = JNull) \<longrightarrow>
        isMissingField (pickStringArray q (Some key))
        \<and> isMissingField (pickNumberArray q (Some key))
        \<and> isMissingField (pickObjectArray q (Some key))"
    using assms
    by (auto simp: pickStringArray_read pickNumberArray_read pickObjectArray_read
        isMissingField_def)
  have z: "v = JNum (Fin 0) \<longrightarrow> pickNumber q key = Inr v"
    by (simp add: rd)
  have f: "v = JBool False \<longrightarrow> pickBoolean q key = Inr v"
    by (simp add: rd)
  have e: "v = JObj [] \<longrightarrow> pickObject q key = Inr (new_Quidquid v (Some key))"
    by (simp add: rd)
  have ea: "key \<noteq> [] \<and> v = JArr [] \<longrightarrow>
        pickStringArray q (Some key) = Inr v
        \<and> pickNumberArray q (Some key) = Inr v
        \<and> pickObjectArray q (Some key) = Inr []"
    using assms
    by (auto simp: pickStringArray_read pickNumberArray_read pickObjectArray_read)
  from s1 s2 n b ob sa na oa arr z f e ea show ?thesis by blast
qed

lemma emptiness_policy_body:
  "(isMissingField (pickStringArray q None) \<longleftrightarrow> quidQuid q = JUndefined \<or> quidQuid q = JNull)
   \<and> (isMissingField (pickNumberArray q None) \<longleftrightarrow> quidQuid q = JUndefined \<or> quidQuid q = JNull)
   \<and> (isMissingField (pickObjectArray q None) \<longleftrightarrow> quidQuid q = JUndefined \<or> quidQuid q = JNull)
   \<and> (quidQuid q = JArr [] \<longrightarrow>
        pickStringArray q None = Inr (JArr [])
        \<and> pickNumberArray q None = Inr (JArr [])
        \<and> pickObjectArray q None = Inr [])"
proof -
  have k: "noKey None" by (simp add: noKey_def)
  have s: "isMissingField (pickStringArray q None) \<longleftrightarrow> quidQuid q = JUndefined \<or> quidQuid q = JNull"
    by (simp add: pickStringArray_body [OF k] isMissingField_def body_not_missing
        looseEqUndefined_iff suffix_def)
  have n: "isMissingField (pickNumberArray q None) \<longleftrightarrow> quidQuid q = JUndefined \<or> quidQuid q = JNull"
    by (simp add: pickNumberArray_body [OF k] isMissingField_def body_not_missing
        looseEqUndefined_iff suffix_def)
  have ob: "isMissingField (pickObjectArray q None) \<longleftrightarrow> quidQuid q = JUndefined \<or> quidQuid q = JNull"
    using wrapAll_not_missing [of "quidQuid q"]
    by (simp add: pickObjectArray_body [OF k] isMissingField_def body_not_missing
        looseEqUndefined_iff suffix_def)
  have e: "quidQuid q = JArr [] \<longrightarrow>
        pickStringArray q None = Inr (JArr [])
        \<and> pickNumberArray q None = Inr (JArr [])
        \<and> pickObjectArray q None = Inr []"
    by (simp add: pickStringArray_body [OF k] pickNumberArray_body [OF k]
        pickObjectArray_body [OF k])
  from s n ob e show ?thesis by blast
qed

text \<open>
  C2. The emptiness policy, given the value \<open>v\<close> read from the field. \<open>pickString\<close>
  fails with the missing-field error exactly when \<open>v\<close> is falsy, the empty string
  included. \<open>pickNumber\<close>, \<open>pickBoolean\<close> and \<open>pickObject\<close> fail with it exactly when \<open>v\<close>
  is \<open>undefined\<close> or \<open>null\<close>; the array accessors called with a key fail with it only
  then (and then always, for a non-empty key), and called without a key exactly when the
  wrapped value is \<open>undefined\<close> or \<open>null\<close>. \<open>0\<close>, \<open>false\<close>, the empty object and the empty
  array are returned as valid values.
\<close>

theorem emptiness_policy:
  "(readProperty (quidQuid q) key = Inr v \<longrightarrow>
     (isMissingField (pickString q key) \<longleftrightarrow>
        v = JUndefined \<or> v = JNull \<or> v = JStr [] \<or> v = JNum (Fin 0) \<or> v = JNum NaN
          \<or> v = JBool False)
   \<and> (v = JStr [] \<longrightarrow>
        pickString q key = Inl (Error (pickFullkeyName q key @ '' must not be empty'')))
   \<and> (isMissingField (pickNumber q key) \<longleftrightarrow> v = JUndefined \<or> v = JNull)
   \<and> (isMissingField (pickBoolean q key) \<longleftrightarrow> v = JUndefined \<or> v = JNull)
   \<and> (isMissingField (pickObject q key) \<longleftrightarrow> v = JUndefined \<or> v = JNull)
   \<and> (isMissingField (pickStringArray q (Some key)) \<longrightarrow> v = JUndefined \<or> v = JNull)
   \<and> (isMissingField (pickNumberArray q (Some key)) \<longrightarrow> v = JUndefined \<or> v = JNull)
   \<and> (isMissingField (pickObjectArray q (Some key)) \<longrightarrow> v = JUndefined \<or> v = JNull)
   \<and> (key \<noteq> [] \<and> (v = JUndefined \<or> v = JNull) \<longrightarrow>
        isMissingField (pickStringArray q (Some key))
        \<and> isMissingField (pickNumberArray q (Some key))
        \<and> isMissingField (pickObjectArray q (Some key)))
   \<and> (v = JNum (Fin 0) \<longrightarrow> pickNumber q key = Inr v)
   \<and> (v = JBool False \<longrightarrow> pickBoolean q key = Inr v)
   \<and> (v = JObj [] \<longrightarrow> pickObject q key = Inr (new_Quidquid v (Some key)))
   \<and> (key \<noteq> [] \<and> v = JArr [] \<longrightarrow>
        pickStringArray q (Some key) = Inr v
        \<and> pickNumberArray q (Some key) = Inr v
        \<and> pickObjectArray q (Some key) = Inr []))
 \<and> (isMissingField (pickStringArray q None) \<longleftrightarrow> quidQuid q = JUndefined \<or> quidQuid q = JNull)
 \<and> (isMissingField (pickNumberArray q None) \<longleftrightarrow> quidQuid q = JUndefined \<or> quidQuid q = JNull)
 \<and> (isMissingField (pickObjectArray q None) \<longleftrightarrow> quidQuid q = JUndefined \<or> quidQuid q = JNull)
 \<and> (quidQuid q = JArr [] \<longrightarrow>
        pickStringArray q None = Inr (JArr [])
        \<and> pickNumberArray q None = Inr (JArr [])
        \<and> pickObjectArray q None = Inr [])"
  using emptiness_policy_keyed [of q key v] emptiness_policy_body [of q] by blast

theorem emptiness_policy_witness:
  "pickString (Quidquid_from (JObj [(''s'', JStr []), (''n'', JNum (Fin 0)), (''b'', JBool False),
       (''o'', JObj []), (''a'', JArr [])])) ''s'' = Inl (Error ''s must not be empty'')
   \<and> pickNumber (Quidquid_from (JObj [(''s'', JStr []), (''n'', JNum (Fin 0)), (''b'', JBool False),
       (''o'', JObj []), (''a'', JArr [])])) ''n'' = Inr (JNum (Fin 0))
   \<and> pickBoolean (Quidquid_from (JObj [(''s'', JStr []), (''n'', JNum (Fin 0)), (''b'', JBool False),
       (''o'', JObj []), (''a'', JArr [])])) ''b'' = Inr (JBool False)
   \<and> pickObject (Quidquid_from (JObj [(''s'', JStr []), (''n'', JNum (Fin 0)), (''b'', JBool False),
       (''o'', JObj []), (''a'', JArr [])])) ''o'' = Inr (new_Quidquid (JObj []) (Some ''o''))
   \<and> pickNumberArray (Quidquid_from (JObj [(''s'', JStr []), (''n'', JNum (Fin 0)), (''b'', JBool False),
       (''o'', JObj []), (''a'', JArr [])])) (Some ''a'') = Inr (JArr [])
   \<and> isMissingField (pickNumber (Quidquid_from (JObj [(''s'', JStr []), (''n'', JNum (Fin 0)),
       (''b'', JBool False), (''o'', JObj []), (''a'', JArr [])])) ''zip'')
   \<and> isMissingField (pickObjectArray (Quidquid_from (JObj [(''s'', JStr []), (''n'', JNum (Fin 0)),
       (''b'', JBool False), (''o'', JObj []), (''a'', JArr [])])) (Some ''zip''))
   \<and> pickObjectArray (Quidquid_from (JArr [])) None = Inr []
   \<and> isMissingField (pickStringArray (Quidquid_from JNull) None)
   \<and> \<not> isMissingField (pickString (Quidquid_from (JObj [])) ''toString'')
   \<and> \<not> isMissingField (pickNumber (Quidquid_from (JObj [])) ''toString'')"
proof -
  let ?q = "Quidquid_from (JObj [(''s'', JStr []), (''n'', JNum (Fin 0)), (''b'', JBool False),
       (''o'', JObj []), (''a'', JArr [])])"
  have s: "readProperty (quidQuid ?q) ''s'' = Inr (JStr [])"
    by (simp add: Quidquid_from_def new_Quidquid_def read_defs)
  have n: "readProperty (quidQuid ?q) ''n'' = Inr (JNum (Fin 0))"
    by (simp add: Quidquid_from_def new_Quidquid_def read_defs)
  have b: "readProperty (quidQuid ?q) ''b'' = Inr (JBool False)"
    by (simp add: Quidquid_from_def new_Quidquid_def read_defs)
  have ob: "readProperty (quidQuid ?q) ''o'' = Inr (JObj [])"
    by (simp add: Quidquid_from_def new_Quidquid_def read_defs)
  have a: "readProperty (quidQuid ?q) ''a'' = Inr (JArr [])"
    by (simp add: Quidquid_from_def new_Quidquid_def read_defs)
  have z: "readProperty (quidQuid ?q) ''zip'' = Inr JUndefined"
    by (simp add: Quidquid_from_def new_Quidquid_def read_defs)
  have e: "quidQuid (Quidquid_from (JArr [])) = JArr []"
    by (simp add: Quidquid_from_def new_Quidquid_def)
  have u: "quidQuid (Quidquid_from JNull) = JNull"
    by (simp add: Quidquid_from_def new_Quidquid_def)
  have root: "pickFullkeyName ?q ''s'' = ''s''"
    by (simp add: pickFullkeyName_def Quidquid_from_def new_Quidquid_def)
  have inh: "readProperty (quidQuid (Quidquid_from (JObj []))) ''toString''
      = Inr (JFunction KObject ''toString'' 0)"
    by (simp add: Quidquid_from_def new_Quidquid_def read_defs)
  show ?thesis
    using emptiness_policy [of ?q "''s''" "JStr []"] emptiness_policy [of ?q "''n''" "JNum (Fin 0)"]
      emptiness_policy [of ?q "''b''" "JBool False"] emptiness_policy [of ?q "''o''" "JObj []"]
      emptiness_policy [of ?q "''a''" "JArr []"] emptiness_policy [of ?q "''zip''" JUndefined]
      emptiness_policy [of "Quidquid_from (JArr [])" "''x''" JUndefined]
      emptiness_policy [of "Quidquid_from JNull" "''x''" JUndefined]
      emptiness_policy [of "Quidquid_from (JObj [])" "''toString''" "JFunction KObject ''toString'' 0"]
      s n b ob a z e u root inh
    by simp
qed

text \<open>
  C10. A field holding \<open>0\<close>, \<open>false\<close> or \<open>NaN\<close> makes \<open>pickStringOptional\<close> (and
  \<open>getStringOptional\<close> of the second class) return \<open>undefined\<close>, not fail with the
  wrong-type error: the test \<open>!value\<close> returns before the schema check is reached.
\<close>

theorem pickStringOptional_falsy_non_string:
  assumes "v = JNum (Fin 0) \<or> v = JBool False \<or> v = JNum NaN"
  shows "(readProperty (quidQuid q) key = Inr v \<longrightarrow> pickStringOptional q key = Inr JUndefined)
       \<and> (readProperty (quidQuid' g) key = Inr v \<longrightarrow> getStringOptional g key = Inr JUndefined)"
  using assms by (auto simp: pickStringOptional_def getStringOptional_def)

theorem pickStringOptional_falsy_non_string_witness:
  "pickStringOptional (Quidquid_from (JObj [(''n'', JNum (Fin 0)), (''b'', JBool False),
       (''x'', JNum NaN)])) ''n'' = Inr JUndefined
   \<and> pickStringOptional (Quidquid_from (JObj [(''n'', JNum (Fin 0)), (''b'', JBool False),
       (''x'', JNum NaN)])) ''b'' = Inr JUndefined
   \<and> pickStringOptional (Quidquid_from (JObj [(''n'', JNum (Fin 0)), (''b'', JBool False),
       (''x'', JNum NaN)])) ''x'' = Inr JUndefined
   \<and> getStringOptional (from' (JObj [(''n'', JNum (Fin 0)), (''b'', JBool False),
       (''x'', JNum NaN)])) ''n'' = Inr JUndefined
   \<and> getStringOptional (from' (JObj [(''n'', JNum (Fin 0)), (''b'', JBool False),
       (''x'', JNum NaN)])) ''b'' = Inr JUndefined
   \<and> getStringOptional (from' (JObj [(''n'', JNum (Fin 0)), (''b'', JBool False),
       (''x'', JNum NaN)])) ''x'' = Inr JUndefined"
proof -
  let ?w = "JObj [(''n'', JNum (Fin 0)), (''b'', JBool False), (''x'', JNum NaN)]"
  have q: "quidQuid (Quidquid_from ?w) = ?w" by (simp add: Quidquid_from_def new_Quidquid_def read_defs)
  have g: "quidQuid' (from' ?w) = ?w" by (simp add: from'_def new_Quidquid'_def)
  have n: "readProperty ?w ''n'' = Inr (JNum (Fin 0))" by simp
  have b: "readProperty ?w ''b'' = Inr (JBool False)" by simp
  have x: "readProperty ?w ''x'' = Inr (JNum NaN)" by simp
  show ?thesis
    using pickStringOptional_falsy_non_string [of "JNum (Fin 0)" "Quidquid_from ?w" "''n''" "from' ?w"]
      pickStringOptional_falsy_non_string [of "JBool False" "Quidquid_from ?w" "''b''" "from' ?w"]
      pickStringOptional_falsy_non_string [of "JNum NaN" "Quidquid_from ?w" "''x''" "from' ?w"]
      q g n b x
    by simp
qed

section \<open>The optional variants\<close>









lemma read_fails_arrays:
  assumes "readProperty (quidQuid q) key = Inl e" and "key \<noteq> []"
  shows "pickStringArray q (Some key) = Inl e" and "pickNumberArray q (Some key) = Inl e"
    and "pickObjectArray q (Some key) = Inl e"
  using assms
  by (simp_all add: pickStringArray_def pickNumberArray_def pickObjectArray_def noKey_def)















section \<open>Arrays\<close>

lemma string_array_iff: "z_array z_string v \<longleftrightarrow> (\<exists>ss. v = JArr (map JStr ss))"
  by (auto simp: z_array_iff all_strings_iff)

lemma number_array_iff:
  "z_array z_number v \<longleftrightarrow> (\<exists>rs. v = JArr (map (\<lambda>r. JNum (Fin r)) rs))"
  by (auto simp: z_array_iff all_numbers_iff)

lemma object_array_iff:
  "z_array z_object v \<longleftrightarrow>
     (\<exists>xs. v = JArr xs
        \<and> (\<forall>x\<in>set xs. (\<exists>kvs. x = JObj kvs) \<or> (\<exists>p. x = JPrototype p \<and> p \<noteq> PFunction)))"
  by (simp add: z_array_iff list_all_iff z_object_iff)

lemma pickStringArray_Inr: "pickStringArray q key = Inr v \<Longrightarrow> z_array z_string v"
  by (auto simp: pickStringArray_def Let_def split: if_splits sum.splits)

lemma pickNumberArray_Inr: "pickNumberArray q key = Inr v \<Longrightarrow> z_array z_number v"
  by (auto simp: pickNumberArray_def Let_def split: if_splits sum.splits)

lemma pickObjectArray_Inr:
  "pickObjectArray q key = Inr cs \<Longrightarrow> \<exists>v. z_array z_object v \<and> wrapAll v = Inr cs"
  by (auto simp: pickObjectArray_def Let_def split: if_splits sum.splits)

text \<open>
  C5. \<open>pickStringArray()\<close> without a key examines the wrapped value itself: an array of
  strings is returned as it is; \<open>undefined\<close> or \<open>null\<close> fails with
  \<open>body must not be empty\<close>; any other value fails with
  \<open>body must be an array of strings\<close>. The messages name \<open>body\<close>, whatever the parent
  key of the accessor.
\<close>

theorem keyless_string_array:
  "(\<forall>ss. quidQuid q = JArr (map JStr ss) \<longrightarrow> pickStringArray q None = Inr (quidQuid q))
   \<and> (quidQuid q = JUndefined \<or> quidQuid q = JNull \<longrightarrow>
        pickStringArray q None = Inl (Error ''body must not be empty''))
   \<and> (quidQuid q \<noteq> JUndefined \<and> quidQuid q \<noteq> JNull
        \<and> (\<forall>ss. quidQuid q \<noteq> JArr (map JStr ss)) \<longrightarrow>
        pickStringArray q None = Inl (Error ''body must be an array of strings''))"
proof -
  have k: "noKey None" by (simp add: noKey_def)
  note body = pickStringArray_body [OF k, of q]
  have ok: "\<forall>ss. quidQuid q = JArr (map JStr ss) \<longrightarrow> pickStringArray q None = Inr (quidQuid q)"
  proof (intro allI impI)
    fix ss assume w: "quidQuid q = JArr (map JStr ss)"
    then have "z_array z_string (quidQuid q)" unfolding string_array_iff by blast
    moreover have "\<not> looseEqUndefined (quidQuid q)" using w by simp
    ultimately show "pickStringArray q None = Inr (quidQuid q)" by (simp add: body)
  qed
  have missing: "quidQuid q = JUndefined \<or> quidQuid q = JNull \<longrightarrow>
        pickStringArray q None = Inl (Error ''body must not be empty'')"
    by (simp add: body looseEqUndefined_iff)
  have invalid: "quidQuid q \<noteq> JUndefined \<and> quidQuid q \<noteq> JNull
        \<and> (\<forall>ss. quidQuid q \<noteq> JArr (map JStr ss)) \<longrightarrow>
        pickStringArray q None = Inl (Error ''body must be an array of strings'')"
    by (simp add: body looseEqUndefined_iff string_array_iff)
  from ok missing invalid show ?thesis by blast
qed

theorem keyless_string_array_witness:
  "pickStringArray (Quidquid_from (JArr [JStr ''a'', JStr ''b''])) None
     = Inr (JArr [JStr ''a'', JStr ''b''])
   \<and> pickStringArray (Quidquid_from JUndefined) None = Inl (Error ''body must not be empty'')
   \<and> pickStringArray (Quidquid_from JNull) None = Inl (Error ''body must not be empty'')
   \<and> pickStringArray (Quidquid_from (JStr ''not-an-array'')) None
     = Inl (Error ''body must be an array of strings'')
   \<and> pickStringArray \<lparr>quidQuid = JObj [(''tags'', JArr [])], parentObjectKey = Some ''post''\<rparr> None
     = Inl (Error ''body must be an array of strings'')"
proof -
  have w: "quidQuid (Quidquid_from v) = v" for v
    by (simp add: Quidquid_from_def new_Quidquid_def)
  have ab: "JArr [JStr ''a'', JStr ''b''] = JArr (map JStr [''a'', ''b''])" by simp
  have a: "pickStringArray (Quidquid_from (JArr [JStr ''a'', JStr ''b''])) None
     = Inr (JArr [JStr ''a'', JStr ''b''])"
    using keyless_string_array [of "Quidquid_from (JArr [JStr ''a'', JStr ''b''])"] w ab
    by metis
  have u: "pickStringArray (Quidquid_from JUndefined) None = Inl (Error ''body must not be empty'')"
    using keyless_string_array [of "Quidquid_from JUndefined"] w by simp
  have n: "pickStringArray (Quidquid_from JNull) None = Inl (Error ''body must not be empty'')"
    using keyless_string_array [of "Quidquid_from JNull"] w by simp
  have s: "pickStringArray (Quidquid_from (JStr ''not-an-array'')) None
     = Inl (Error ''body must be an array of strings'')"
    using keyless_string_array [of "Quidquid_from (JStr ''not-an-array'')"] w by simp
  have p: "pickStringArray \<lparr>quidQuid = JObj [(''tags'', JArr [])], parentObjectKey = Some ''post''\<rparr> None
     = Inl (Error ''body must be an array of strings'')"
    using keyless_string_array
      [of "\<lparr>quidQuid = JObj [(''tags'', JArr [])], parentObjectKey = Some ''post''\<rparr>"]
    by simp
  from a u n s p show ?thesis by simp
qed

text \<open>
  C6. On an accessor wrapping an array of objects, \<open>pickObjectArray()\<close> without a key
  returns one accessor per element, in order, each wrapping its own element and built
  without a parent key, whatever the parent key of the accessor called.
\<close>

theorem keyless_object_array:
  assumes "quidQuid q = JArr (map JObj os)"
  shows "pickObjectArray q None =
           Inr (map (\<lambda>kvs. \<lparr>quidQuid = JObj kvs, parentObjectKey = None\<rparr>) os)"
proof -
  have k: "noKey None" by (simp add: noKey_def)
  have "z_array z_object (quidQuid q)"
    using assms by (simp add: objects_accepted)
  moreover have "\<not> looseEqUndefined (quidQuid q)" using assms by simp
  ultimately have "pickObjectArray q None = wrapAll (quidQuid q)"
    by (simp add: pickObjectArray_body [OF k])
  then show ?thesis by (simp add: assms new_Quidquid_def comp_def)
qed

theorem keyless_object_array_witness:
  "pickObjectArray (Quidquid_from (JArr [JObj [(''x'', JNum (Fin 1))], JObj [(''x'', JNum (Fin 2))]])) None
     = Inr [\<lparr>quidQuid = JObj [(''x'', JNum (Fin 1))], parentObjectKey = None\<rparr>,
            \<lparr>quidQuid = JObj [(''x'', JNum (Fin 2))], parentObjectKey = None\<rparr>]
   \<and> pickNumber \<lparr>quidQuid = JObj [(''x'', JNum (Fin 1))], parentObjectKey = None\<rparr> ''x''
     = Inr (JNum (Fin 1))
   \<and> pickNumber \<lparr>quidQuid = JObj [(''x'', JNum (Fin 2))], parentObjectKey = None\<rparr> ''x''
     = Inr (JNum (Fin 2))
   \<and> pickNumber \<lparr>quidQuid = JObj [(''x'', JNum (Fin 2))], parentObjectKey = None\<rparr> ''y''
     = Inl (Error ''y must not be empty'')"
proof -
  have w: "quidQuid (Quidquid_from (JArr [JObj [(''x'', JNum (Fin 1))], JObj [(''x'', JNum (Fin 2))]]))
      = JArr (map JObj [[(''x'', JNum (Fin 1))], [(''x'', JNum (Fin 2))]])"
    by (simp add: Quidquid_from_def new_Quidquid_def)
  have children: "pickObjectArray
      (Quidquid_from (JArr [JObj [(''x'', JNum (Fin 1))], JObj [(''x'', JNum (Fin 2))]])) None
     = Inr [\<lparr>quidQuid = JObj [(''x'', JNum (Fin 1))], parentObjectKey = None\<rparr>,
            \<lparr>quidQuid = JObj [(''x'', JNum (Fin 2))], parentObjectKey = None\<rparr>]"
    using keyless_object_array [OF w] by simp
  then show ?thesis
    by (simp add: pickNumber_def pickFullkeyName_def read_defs)
qed

lemma string_array_body_result:
  "noKey key \<Longrightarrow>
   pickStringArray q key = Inr v \<longleftrightarrow> v = quidQuid q \<and> (\<exists>ss. v = JArr (map JStr ss))"
  by (auto simp: pickStringArray_body string_array_iff)

lemma number_array_body_result:
  "noKey key \<Longrightarrow>
   pickNumberArray q key = Inr v \<longleftrightarrow>
     v = quidQuid q \<and> (\<exists>rs. v = JArr (map (\<lambda>r. JNum (Fin r)) rs))"
  by (auto simp: pickNumberArray_body number_array_iff)

lemma wrapAll_result:
  "z_array z_object w \<Longrightarrow>
   wrapAll w = Inr cs \<longleftrightarrow>
     (\<exists>xs. w = JArr xs \<and> cs = map (\<lambda>x. \<lparr>quidQuid = x, parentObjectKey = None\<rparr>) xs)"
  by (cases w) (auto simp: new_Quidquid_def)

lemma object_array_body_result:
  "noKey key \<Longrightarrow>
   pickObjectArray q key = Inr cs \<longleftrightarrow>
     (\<exists>xs. quidQuid q = JArr xs
        \<and> (\<forall>x\<in>set xs. (\<exists>kvs. x = JObj kvs) \<or> (\<exists>p. x = JPrototype p \<and> p \<noteq> PFunction))
        \<and> cs = map (\<lambda>x. \<lparr>quidQuid = x, parentObjectKey = None\<rparr>) xs)"
proof (cases "z_array z_object (quidQuid q)")
  case True
  then have "\<not> looseEqUndefined (quidQuid q)" by (cases "quidQuid q") simp_all
  with True show "noKey key \<Longrightarrow> ?thesis"
    using object_array_iff [of "quidQuid q"]
    by (auto simp: pickObjectArray_body wrapAll_result)
next
  case False
  then show "noKey key \<Longrightarrow> ?thesis"
    using object_array_iff [of "quidQuid q"]
    by (auto simp: pickObjectArray_body)
qed

lemma string_array_field_result:
  "k \<noteq> [] \<Longrightarrow>
   pickStringArray q (Some k) = Inr v \<longleftrightarrow>
     readProperty (quidQuid q) k = Inr v \<and> (\<exists>ss. v = JArr (map JStr ss))"
proof (cases "readProperty (quidQuid q) k")
  case (Inl e)
  then show "k \<noteq> [] \<Longrightarrow> ?thesis" by (simp add: read_fails_arrays)
next
  case (Inr u)
  then show "k \<noteq> [] \<Longrightarrow> ?thesis"
    by (auto simp: pickStringArray_read string_array_iff)
qed

lemma number_array_field_result:
  "k \<noteq> [] \<Longrightarrow>
   pickNumberArray q (Some k) = Inr v \<longleftrightarrow>
     readProperty (quidQuid q) k = Inr v \<and> (\<exists>rs. v = JArr (map (\<lambda>r. JNum (Fin r)) rs))"
proof (cases "readProperty (quidQuid q) k")
  case (Inl e)
  then show "k \<noteq> [] \<Longrightarrow> ?thesis" by (simp add: read_fails_arrays)
next
  case (Inr u)
  then show "k \<noteq> [] \<Longrightarrow> ?thesis"
    by (auto simp: pickNumberArray_read number_array_iff)
qed

lemma object_array_field_result:
  "k \<noteq> [] \<Longrightarrow>
   pickObjectArray q (Some k) = Inr cs \<longleftrightarrow>
     (\<exists>xs. readProperty (quidQuid q) k = Inr (JArr xs)
        \<and> (\<forall>x\<in>set xs. (\<exists>kvs. x = JObj kvs) \<or> (\<exists>p. x = JPrototype p \<and> p \<noteq> PFunction))
        \<and> cs = map (\<lambda>x. \<lparr>quidQuid = x, parentObjectKey = None\<rparr>) xs)"
proof (cases "readProperty (quidQuid q) k")
  case (Inl e)
  then show "k \<noteq> [] \<Longrightarrow> ?thesis" by (simp add: read_fails_arrays)
next
  case (Inr u)
  show "k \<noteq> [] \<Longrightarrow> ?thesis"
  proof (cases "z_array z_object u")
    case True
    then have "\<not> looseEqUndefined u" by (cases u) simp_all
    with True Inr show "k \<noteq> [] \<Longrightarrow> ?thesis"
      using object_array_iff [of u]
      by (auto simp: pickObjectArray_read wrapAll_result)
  next
    case False
    with Inr show "k \<noteq> [] \<Longrightarrow> ?thesis"
      using object_array_iff [of u]
      by (auto simp: pickObjectArray_read)
  qed
qed

lemma mixed_body_rejected:
  assumes "noKey key" and "quidQuid q = JArr xs" and "x \<in> set xs"
  shows "(\<forall>s. x \<noteq> JStr s) \<longrightarrow>
           pickStringArray q key = Inl (Error ''body must be an array of strings'')"
    and "(\<forall>r. x \<noteq> JNum (Fin r)) \<longrightarrow>
           pickNumberArray q key = Inl (Error ''body must be an array of numbers'')"
    and "(\<forall>kvs. x \<noteq> JObj kvs) \<and> (\<forall>p. x \<noteq> JPrototype p) \<longrightarrow>
           pickObjectArray q key = Inl (Error ''body must be an array of objects'')"
  using assms
  by (auto simp: pickStringArray_body pickNumberArray_body pickObjectArray_body
      list_all_iff z_string_iff z_number_iff z_object_iff)

lemma mixed_field_rejected:
  assumes "k \<noteq> []" and "readProperty (quidQuid q) k = Inr (JArr xs)" and "x \<in> set xs"
  shows "(\<forall>s. x \<noteq> JStr s) \<longrightarrow>
           pickStringArray q (Some k)
             = Inl (Error (pickFullkeyName q k @ '' must be an array of strings''))"
    and "(\<forall>r. x \<noteq> JNum (Fin r)) \<longrightarrow>
           pickNumberArray q (Some k)
             = Inl (Error (pickFullkeyName q k @ '' must be an array of numbers''))"
    and "(\<forall>kvs. x \<noteq> JObj kvs) \<and> (\<forall>p. x \<noteq> JPrototype p) \<longrightarrow>
           pickObjectArray q (Some k)
             = Inl (Error (pickFullkeyName q k @ '' must be an array of objects''))"
  using assms
  by (auto simp: pickStringArray_read pickNumberArray_read pickObjectArray_read
      list_all_iff z_string_iff z_number_iff z_object_iff)

text \<open>
  C7. \<open>pickNumberArray("scores")\<close> on \<open>{scores: [1, "x", 3]}\<close> fails with
  \<open>scores must be an array of numbers\<close>. In general a required array accessor succeeds
  exactly when the value it examines, the wrapped value when the key is left out or empty
  and the field otherwise, is an array all of whose elements are of the expected kind; it
  then returns that very array, or for objects one accessor per element. An array with
  one element of another kind makes it fail with the wrong-type error, named \<open>body\<close> or by
  the full name of the field.
\<close>

theorem mixed_arrays_rejected:
  "pickNumberArray
     (Quidquid_from (JObj [(''scores'', JArr [JNum (Fin 1), JStr ''x'', JNum (Fin 3)])]))
     (Some ''scores'') = Inl (Error ''scores must be an array of numbers'')
   \<and> (noKey key \<longrightarrow>
        (pickStringArray q key = Inr v \<longleftrightarrow>
           v = quidQuid q \<and> (\<exists>ss. v = JArr (map JStr ss)))
        \<and> (pickNumberArray q key = Inr v \<longleftrightarrow>
           v = quidQuid q \<and> (\<exists>rs. v = JArr (map (\<lambda>r. JNum (Fin r)) rs)))
        \<and> (pickObjectArray q key = Inr cs \<longleftrightarrow>
           (\<exists>xs. quidQuid q = JArr xs
              \<and> (\<forall>x\<in>set xs. (\<exists>kvs. x = JObj kvs) \<or> (\<exists>p. x = JPrototype p \<and> p \<noteq> PFunction))
              \<and> cs = map (\<lambda>x. \<lparr>quidQuid = x, parentObjectKey = None\<rparr>) xs)))
   \<and> (k \<noteq> [] \<longrightarrow>
        (pickStringArray q (Some k) = Inr v \<longleftrightarrow>
           readProperty (quidQuid q) k = Inr v \<and> (\<exists>ss. v = JArr (map JStr ss)))
        \<and> (pickNumberArray q (Some k) = Inr v \<longleftrightarrow>
           readProperty (quidQuid q) k = Inr v
           \<and> (\<exists>rs. v = JArr (map (\<lambda>r. JNum (Fin r)) rs)))
        \<and> (pickObjectArray q (Some k) = Inr cs \<longleftrightarrow>
           (\<exists>xs. readProperty (quidQuid q) k = Inr (JArr xs)
              \<and> (\<forall>x\<in>set xs. (\<exists>kvs. x = JObj kvs) \<or> (\<exists>p. x = JPrototype p \<and> p \<noteq> PFunction))
              \<and> cs = map (\<lambda>x. \<lparr>quidQuid = x, parentObjectKey = None\<rparr>) xs)))
   \<and> (noKey key \<and> quidQuid q = JArr xs \<and> x \<in> set xs \<longrightarrow>
        ((\<forall>s. x \<noteq> JStr s) \<longrightarrow>
           pickStringArray q key = Inl (Error ''body must be an array of strings''))
        \<and> ((\<forall>r. x \<noteq> JNum (Fin r)) \<longrightarrow>
           pickNumberArray q key = Inl (Error ''body must be an array of numbers''))
        \<and> ((\<forall>kvs. x \<noteq> JObj kvs) \<and> (\<forall>p. x \<noteq> JPrototype p) \<longrightarrow>
           pickObjectArray q key = Inl (Error ''body must be an array of objects'')))
   \<and> (k \<noteq> [] \<and> readProperty (quidQuid q) k = Inr (JArr xs) \<and> x \<in> set xs \<longrightarrow>
        ((\<forall>s. x \<noteq> JStr s) \<longrightarrow>
           pickStringArray q (Some k)
             = Inl (Error (pickFullkeyName q k @ '' must be an array of strings'')))
        \<and> ((\<forall>r. x \<noteq> JNum (Fin r)) \<longrightarrow>
           pickNumberArray q (Some k)
             = Inl (Error (pickFullkeyName q k @ '' must be an array of numbers'')))
        \<and> ((\<forall>kvs. x \<noteq> JObj kvs) \<and> (\<forall>p. x \<noteq> JPrototype p) \<longrightarrow>
           pickObjectArray q (Some k)
             = Inl (Error (pickFullkeyName q k @ '' must be an array of objects''))))"
proof -
  have ex: "pickNumberArray
     (Quidquid_from (JObj [(''scores'', JArr [JNum (Fin 1), JStr ''x'', JNum (Fin 3)])]))
     (Some ''scores'') = Inl (Error ''scores must be an array of numbers'')"
    by (simp add: pickNumberArray_def noKey_def Quidquid_from_def new_Quidquid_def
        pickFullkeyName_def)
  have body: "noKey key \<longrightarrow>
        (pickStringArray q key = Inr v \<longleftrightarrow>
           v = quidQuid q \<and> (\<exists>ss. v = JArr (map JStr ss)))
        \<and> (pickNumberArray q key = Inr v \<longleftrightarrow>
           v = quidQuid q \<and> (\<exists>rs. v = JArr (map (\<lambda>r. JNum (Fin r)) rs)))
        \<and> (pickObjectArray q key = Inr cs \<longleftrightarrow>
           (\<exists>xs. quidQuid q = JArr xs
              \<and> (\<forall>x\<in>set xs. (\<exists>kvs. x = JObj kvs) \<or> (\<exists>p. x = JPrototype p \<and> p \<noteq> PFunction))
              \<and> cs = map (\<lambda>x. \<lparr>quidQuid = x, parentObjectKey = None\<rparr>) xs))"
    by (intro impI conjI string_array_body_result number_array_body_result
        object_array_body_result)
  have field: "k \<noteq> [] \<longrightarrow>
        (pickStringArray q (Some k) = Inr v \<longleftrightarrow>
           readProperty (quidQuid q) k = Inr v \<and> (\<exists>ss. v = JArr (map JStr ss)))
        \<and> (pickNumberArray q (Some k) = Inr v \<longleftrightarrow>
           readProperty (quidQuid q) k = Inr v
           \<and> (\<exists>rs. v = JArr (map (\<lambda>r. JNum (Fin r)) rs)))
        \<and> (pickObjectArray q (Some k) = Inr cs \<longleftrightarrow>
           (\<exists>xs. readProperty (quidQuid q) k = Inr (JArr xs)
              \<and> (\<forall>x\<in>set xs. (\<exists>kvs. x = JObj kvs) \<or> (\<exists>p. x = JPrototype p \<and> p \<noteq> PFunction))
              \<and> cs = map (\<lambda>x. \<lparr>quidQuid = x, parentObjectKey = None\<rparr>) xs))"
    by (intro impI conjI string_array_field_result number_array_field_result
        object_array_field_result)
  have rej_body: "noKey key \<and> quidQuid q = JArr xs \<and> x \<in> set xs \<longrightarrow>
        ((\<forall>s. x \<noteq> JStr s) \<longrightarrow>
           pickStringArray q key = Inl (Error ''body must be an array of strings''))
        \<and> ((\<forall>r. x \<noteq> JNum (Fin r)) \<longrightarrow>
           pickNumberArray q key = Inl (Error ''body must be an array of numbers''))
        \<and> ((\<forall>kvs. x \<noteq> JObj kvs) \<and> (\<forall>p. x \<noteq> JPrototype p) \<longrightarrow>
           pickObjectArray q key = Inl (Error ''body must be an array of objects''))"
    using mixed_body_rejected [of key q xs x] by blast
  have rej_field: "k \<noteq> [] \<and> readProperty (quidQuid q) k = Inr (JArr xs) \<and> x \<in> set xs \<longrightarrow>
        ((\<forall>s. x \<noteq> JStr s) \<longrightarrow>
           pickStringArray q (Some k)
             = Inl (Error (pickFullkeyName q k @ '' must be an array of strings'')))
        \<and> ((\<forall>r. x \<noteq> JNum (Fin r)) \<longrightarrow>
           pickNumberArray q (Some k)
             = Inl (Error (pickFullkeyName q k @ '' must be an array of numbers'')))
        \<and> ((\<forall>kvs. x \<noteq> JObj kvs) \<and> (\<forall>p. x \<noteq> JPrototype p) \<longrightarrow>
           pickObjectArray q (Some k)
             = Inl (Error (pickFullkeyName q k @ '' must be an array of objects'')))"
    using mixed_field_rejected [of k q xs x] by blast
  show ?thesis by (intro conjI ex body field rej_body rej_field)
qed



theorem mixed_arrays_rejected_witness:
  "pickStringArray (Quidquid_from (JObj [(''tags'', JArr [JStr ''a'', JNum (Fin 1)])])) (Some ''tags'')
     = Inl (Error ''tags must be an array of strings'')
   \<and> pickObjectArray (Quidquid_from (JObj [(''tags'', JArr [JStr ''a'', JNum (Fin 1)])])) (Some ''tags'')
     = Inl (Error ''tags must be an array of objects'')
   \<and> pickNumberArray (Quidquid_from (JObj [(''tags'', JArr [JStr ''a'', JNum (Fin 1)])])) (Some ''tags'')
     = Inl (Error ''tags must be an array of numbers'')
   \<and> pickNumberArray (Quidquid_from (JArr [JNum (Fin 1), JStr ''x'', JNum (Fin 3)])) None
     = Inl (Error ''body must be an array of numbers'')
   \<and> pickNumberArray (Quidquid_from (JArr [JNum (Fin 1), JNum (Fin 2)])) None
     = Inr (JArr [JNum (Fin 1), JNum (Fin 2)])
   \<and> pickStringArray (Quidquid_from (JObj [(''tags'', JArr [JStr ''a'', JStr ''b''])])) (Some ''tags'')
     = Inr (JArr [JStr ''a'', JStr ''b''])
   \<and> pickObjectArray (Quidquid_from (JArr [JObj [], JObj [(''x'', JNull)]])) None
     = Inr [\<lparr>quidQuid = JObj [], parentObjectKey = None\<rparr>,
            \<lparr>quidQuid = JObj [(''x'', JNull)], parentObjectKey = None\<rparr>]"
proof -
  let ?q = "Quidquid_from (JObj [(''tags'', JArr [JStr ''a'', JNum (Fin 1)])])"
  let ?m = "Quidquid_from (JArr [JNum (Fin 1), JStr ''x'', JNum (Fin 3)])"
  let ?r = "Quidquid_from (JArr [JNum (Fin 1), JNum (Fin 2)])"
  let ?t = "Quidquid_from (JObj [(''tags'', JArr [JStr ''a'', JStr ''b''])])"
  let ?o = "Quidquid_from (JArr [JObj [], JObj [(''x'', JNull)]])"
  have w: "quidQuid (Quidquid_from u) = u" for u
    by (simp add: Quidquid_from_def new_Quidquid_def)
  have rd: "readProperty (quidQuid ?q) ''tags'' = Inr (JArr [JStr ''a'', JNum (Fin 1)])"
    by (simp add: w)
  have rt: "readProperty (quidQuid ?t) ''tags'' = Inr (JArr [JStr ''a'', JStr ''b''])"
    by (simp add: w)
  have nm: "pickFullkeyName ?q ''tags'' = ''tags''"
    by (simp add: pickFullkeyName_def Quidquid_from_def new_Quidquid_def)
  have k: "noKey None" by (simp add: noKey_def)
  note field_rej = mixed_arrays_rejected [THEN conjunct2, THEN conjunct2, THEN conjunct2,
      THEN conjunct2, rule_format]
  note body_rej = mixed_arrays_rejected [THEN conjunct2, THEN conjunct2, THEN conjunct2,
      THEN conjunct1, rule_format]
  note body_ok = mixed_arrays_rejected [THEN conjunct2, THEN conjunct1, rule_format]
  note field_ok = mixed_arrays_rejected [THEN conjunct2, THEN conjunct2, THEN conjunct1,
      rule_format]
  have s: "pickStringArray ?q (Some ''tags'') = Inl (Error ''tags must be an array of strings'')"
    using field_rej [of "''tags''" ?q "[JStr ''a'', JNum (Fin 1)]" "JNum (Fin 1)"] rd nm
    by simp
  have ob: "pickObjectArray ?q (Some ''tags'') = Inl (Error ''tags must be an array of objects'')"
    using field_rej [of "''tags''" ?q "[JStr ''a'', JNum (Fin 1)]" "JNum (Fin 1)"] rd nm
    by simp
  have n: "pickNumberArray ?q (Some ''tags'') = Inl (Error ''tags must be an array of numbers'')"
    using field_rej [of "''tags''" ?q "[JStr ''a'', JNum (Fin 1)]" "JStr ''a''"] rd nm
    by simp
  have m: "pickNumberArray ?m None = Inl (Error ''body must be an array of numbers'')"
    using body_rej [of None ?m "[JNum (Fin 1), JStr ''x'', JNum (Fin 3)]" "JStr ''x''"] k w
    by simp
  have "JArr [JNum (Fin 1), JNum (Fin 2)] = JArr (map (\<lambda>r. JNum (Fin r)) [1, 2])" by simp
  then have "\<exists>rs. JArr [JNum (Fin 1), JNum (Fin 2)] = JArr (map (\<lambda>r. JNum (Fin r)) rs)"
    by (rule exI)
  then have r: "pickNumberArray ?r None = Inr (JArr [JNum (Fin 1), JNum (Fin 2)])"
    using body_ok [OF k, of ?r "JArr [JNum (Fin 1), JNum (Fin 2)]"] w by simp
  have "JArr [JStr ''a'', JStr ''b''] = JArr (map JStr [''a'', ''b''])" by simp
  then have "\<exists>ss. JArr [JStr ''a'', JStr ''b''] = JArr (map JStr ss)" by (rule exI)
  then have t: "pickStringArray ?t (Some ''tags'') = Inr (JArr [JStr ''a'', JStr ''b''])"
    using field_ok [of "''tags''" ?t "JArr [JStr ''a'', JStr ''b'']"] rt by simp
  have "\<exists>xs. quidQuid ?o = JArr xs
      \<and> (\<forall>x\<in>set xs. (\<exists>kvs. x = JObj kvs) \<or> (\<exists>p. x = JPrototype p \<and> p \<noteq> PFunction))
      \<and> [\<lparr>quidQuid = JObj [], parentObjectKey = None\<rparr>,
          \<lparr>quidQuid = JObj [(''x'', JNull)], parentObjectKey = None\<rparr>]
        = map (\<lambda>x. \<lparr>quidQuid = x, parentObjectKey = None\<rparr>) xs"
    by (rule exI [of _ "[JObj [], JObj [(''x'', JNull)]]"]) (simp add: w)
  then have c: "pickObjectArray ?o None
     = Inr [\<lparr>quidQuid = JObj [], parentObjectKey = None\<rparr>,
            \<lparr>quidQuid = JObj [(''x'', JNull)], parentObjectKey = None\<rparr>]"
    using body_ok [OF k, of ?o _ "[\<lparr>quidQuid = JObj [], parentObjectKey = None\<rparr>,
            \<lparr>quidQuid = JObj [(''x'', JNull)], parentObjectKey = None\<rparr>]"]
    by simp
  from s ob n m r t c show ?thesis by simp
qed

section \<open>The two classes side by side\<close>

text \<open>
  The second class has the same two fields; \<open>toPick\<close> reads an accessor of the second
  class as the accessor of the first with the same wrapped value and the same parent key.
\<close>

lemma toPick_fields [simp]:
  "quidQuid (toPick g) = quidQuid' g" "parentObjectKey (toPick g) = parentObjectKey' g"
  by (simp_all add: toPick_def)

lemma toPick_new: "toPick (new_Quidquid' v p) = new_Quidquid v p"
  by (simp add: toPick_def new_Quidquid'_def new_Quidquid_def)

lemma fullkey_same: "getFullkeyName g k = pickFullkeyName (toPick g) k"
  by (simp add: getFullkeyName_def pickFullkeyName_def)

lemma wrapAll_same: "map_sum id (map toPick) (wrapAll' v) = wrapAll v"
  by (cases v) (simp_all add: toPick_new comp_def)

lemma string_same: "getString g k = pickString (toPick g) k"
  by (simp add: getString_def pickString_def fullkey_same Let_def split: sum.splits)

lemma number_same: "getNumber g k = pickNumber (toPick g) k"
  by (simp add: getNumber_def pickNumber_def fullkey_same Let_def split: sum.splits)

lemma boolean_same: "getBoolean g k = pickBoolean (toPick g) k"
  by (simp add: getBoolean_def pickBoolean_def fullkey_same Let_def split: sum.splits)

lemma stringArray_same: "getStringArray g ko = pickStringArray (toPick g) ko"
  by (simp add: getStringArray_def pickStringArray_def fullkey_same Let_def split: sum.splits)

lemma numberArray_same: "getNumberArray g ko = pickNumberArray (toPick g) ko"
  by (simp add: getNumberArray_def pickNumberArray_def fullkey_same Let_def split: sum.splits)

lemma object_same: "map_sum id toPick (getObject g k) = pickObject (toPick g) k"
  by (simp add: getObject_def pickObject_def fullkey_same toPick_new Let_def split: sum.splits)

lemma objectArray_same:
  "map_sum id (map toPick) (getObjectArray g ko) = pickObjectArray (toPick g) ko"
  by (simp add: getObjectArray_def pickObjectArray_def fullkey_same wrapAll_same Let_def
      split: sum.splits)

lemma objectOptional_same:
  "map_sum id (map_option toPick) (getObjectOptional g k) = pickObjectOptional (toPick g) k"
proof (cases "readProperty (quidQuid' g) k")
  case (Inl e)
  then show ?thesis by (simp add: getObjectOptional_def pickObjectOptional_def)
next
  case (Inr v)
  show ?thesis
  proof (cases "getObject g k")
    case (Inl e)
    with object_same [of g k] have "pickObject (toPick g) k = Inl e" by simp
    with Inl Inr show ?thesis by (simp add: getObjectOptional_def pickObjectOptional_def)
  next
    case (Inr c)
    with object_same [of g k] have "pickObject (toPick g) k = Inr (toPick c)" by simp
    with Inr \<open>readProperty (quidQuid' g) k = Inr v\<close> show ?thesis
      by (simp add: getObjectOptional_def pickObjectOptional_def)
  qed
qed

lemma objectArrayOptional_same:
  "map_sum id (map_option (map toPick)) (getObjectArrayOptional g k)
     = pickObjectArrayOptional (toPick g) k"
proof (cases "readProperty (quidQuid' g) k")
  case (Inl e)
  then show ?thesis by (simp add: getObjectArrayOptional_def pickObjectArrayOptional_def)
next
  case (Inr v)
  show ?thesis
  proof (cases "getObjectArray g (Some k)")
    case (Inl e)
    with objectArray_same [of g "Some k"] have "pickObjectArray (toPick g) (Some k) = Inl e"
      by simp
    with Inl Inr show ?thesis
      by (simp add: getObjectArrayOptional_def pickObjectArrayOptional_def)
  next
    case (Inr cs)
    with objectArray_same [of g "Some k"]
    have "pickObjectArray (toPick g) (Some k) = Inr (map toPick cs)" by simp
    with Inr \<open>readProperty (quidQuid' g) k = Inr v\<close> show ?thesis
      by (simp add: getObjectArrayOptional_def pickObjectArrayOptional_def)
  qed
qed

text \<open>
  C8. The \<open>get\<close> methods of the second class and the \<open>pick\<close> methods of the first are
  the same functions: on accessors with the same wrapped value and parent key, each pair
  of methods returns the same value or fails with the same error, and the child accessors
  they return again have the same wrapped value and parent key. The two factories build
  corresponding accessors.
\<close>

theorem pick_get_equivalent:
  "toPick (from' v) = Quidquid_from v
   \<and> toPick (new_Quidquid' v p) = new_Quidquid v p
   \<and> getString g k = pickString (toPick g) k
   \<and> getStringOptional g k = pickStringOptional (toPick g) k
   \<and> getStringArray g ko = pickStringArray (toPick g) ko
   \<and> getStringArrayOptional g k = pickStringArrayOptional (toPick g) k
   \<and> getNumber g k = pickNumber (toPick g) k
   \<and> getNumberOptional g k = pickNumberOptional (toPick g) k
   \<and> getNumberArray g ko = pickNumberArray (toPick g) ko
   \<and> getNumberArrayOptional g k = pickNumberArrayOptional (toPick g) k
   \<and> getBoolean g k = pickBoolean (toPick g) k
   \<and> getBooleanOptional g k = pickBooleanOptional (toPick g) k
   \<and> map_sum id toPick (getObject g k) = pickObject (toPick g) k
   \<and> map_sum id (map_option toPick) (getObjectOptional g k) = pickObjectOptional (toPick g) k
   \<and> map_sum id (map toPick) (getObjectArray g ko) = pickObjectArray (toPick g) ko
   \<and> map_sum id (map_option (map toPick)) (getObjectArrayOptional g k)
       = pickObjectArrayOptional (toPick g) k"
proof -
  have f: "toPick (from' v) = Quidquid_from v"
    by (simp add: from'_def Quidquid_from_def toPick_new)
  have so: "getStringOptional g k = pickStringOptional (toPick g) k"
    by (simp add: getStringOptional_def pickStringOptional_def string_same split: sum.splits)
  have sao: "getStringArrayOptional g k = pickStringArrayOptional (toPick g) k"
    by (simp add: getStringArrayOptional_def pickStringArrayOptional_def stringArray_same
        split: sum.splits)
  have no: "getNumberOptional g k = pickNumberOptional (toPick g) k"
    by (simp add: getNumberOptional_def pickNumberOptional_def number_same split: sum.splits)
  have nao: "getNumberArrayOptional g k = pickNumberArrayOptional (toPick g) k"
    by (simp add: getNumberArrayOptional_def pickNumberArrayOptional_def numberArray_same
        split: sum.splits)
  have bo: "getBooleanOptional g k = pickBooleanOptional (toPick g) k"
    by (simp add: getBooleanOptional_def pickBooleanOptional_def boolean_same split: sum.splits)
  from f so sao no nao bo show ?thesis
    by (simp add: toPick_new string_same number_same boolean_same stringArray_same
        numberArray_same object_same objectArray_same objectOptional_same
        objectArrayOptional_same)
qed

section \<open>The methods on the heap\<close>

text \<open>
  Each method written with the heap returns what the method without it returns, on the
  accessor found at \<open>this\<close>; a child accessor is returned as the address of a new object
  that holds it.
\<close>

lemma new_st_appends: "new_st v k h = (length h, h @ [new_Quidquid v k])"
  by (simp add: new_st_def allocate_def constructor_st_def new_Quidquid_def Let_def)

lemma pickFullkeyName_st_reads:
  "pickFullkeyName_st this key h = (pickFullkeyName (h ! this) key, h)"
  by (simp add: pickFullkeyName_st_def pickFullkeyName_def split: option.splits)

lemma pickString_st_reads: "pickString_st this key h = (pickString (h ! this) key, h)"
  by (simp add: pickString_st_def pickString_def pickFullkeyName_st_reads Let_def
      split: sum.splits)

lemma pickStringOptional_st_reads:
  "pickStringOptional_st this key h = (pickStringOptional (h ! this) key, h)"
  by (simp add: pickStringOptional_st_def pickStringOptional_def pickString_st_reads
      split: sum.splits)

lemma pickStringArray_st_reads:
  "pickStringArray_st this key h = (pickStringArray (h ! this) key, h)"
  by (simp add: pickStringArray_st_def pickStringArray_def pickFullkeyName_st_reads Let_def
      split: sum.splits)

lemma pickStringArrayOptional_st_reads:
  "pickStringArrayOptional_st this key h = (pickStringArrayOptional (h ! this) key, h)"
  by (simp add: pickStringArrayOptional_st_def pickStringArrayOptional_def
      pickStringArray_st_reads split: sum.splits)

lemma pickNumber_st_reads: "pickNumber_st this key h = (pickNumber (h ! this) key, h)"
  by (simp add: pickNumber_st_def pickNumber_def pickFullkeyName_st_reads Let_def
      split: sum.splits)

lemma pickNumberOptional_st_reads:
  "pickNumberOptional_st this key h = (pickNumberOptional (h ! this) key, h)"
  by (simp add: pickNumberOptional_st_def pickNumberOptional_def pickNumber_st_reads
      split: sum.splits)

lemma pickNumberArray_st_reads:
  "pickNumberArray_st this key h = (pickNumberArray (h ! this) key, h)"
  by (simp add: pickNumberArray_st_def pickNumberArray_def pickFullkeyName_st_reads Let_def
      split: sum.splits)

lemma pickNumberArrayOptional_st_reads:
  "pickNumberArrayOptional_st this key h = (pickNumberArrayOptional (h ! this) key, h)"
  by (simp add: pickNumberArrayOptional_st_def pickNumberArrayOptional_def
      pickNumberArray_st_reads split: sum.splits)

lemma pickBoolean_st_reads: "pickBoolean_st this key h = (pickBoolean (h ! this) key, h)"
  by (simp add: pickBoolean_st_def pickBoolean_def pickFullkeyName_st_reads Let_def
      split: sum.splits)

lemma pickBooleanOptional_st_reads:
  "pickBooleanOptional_st this key h = (pickBooleanOptional (h ! this) key, h)"
  by (simp add: pickBooleanOptional_st_def pickBooleanOptional_def pickBoolean_st_reads
      split: sum.splits)

lemma pickObject_st_allocates:
  "pickObject_st this key h =
     (case pickObject (h ! this) key of
        Inl e \<Rightarrow> (Inl e, h)
      | Inr c \<Rightarrow> (Inr (length h), h @ [c]))"
  by (simp add: pickObject_st_def pickObject_def pickFullkeyName_st_reads new_st_appends
      Let_def split: sum.splits)

lemma pickObjectOptional_st_allocates:
  "pickObjectOptional_st this key h =
     (case pickObjectOptional (h ! this) key of
        Inl e \<Rightarrow> (Inl e, h)
      | Inr None \<Rightarrow> (Inr None, h)
      | Inr (Some c) \<Rightarrow> (Inr (Some (length h)), h @ [c]))"
  by (simp add: pickObjectOptional_st_def pickObjectOptional_def pickObject_st_allocates
      split: sum.splits)

lemma newAll_st_allocates:
  "newAll_st xs h =
     ([length h ..< length h + length xs], h @ map (\<lambda>x. new_Quidquid x None) xs)"
proof (induction xs arbitrary: h)
  case Nil
  show ?case by simp
next
  case (Cons x xs)
  have "[length h ..< length h + length (x # xs)]
      = length h # [Suc (length h) ..< Suc (length h) + length xs]"
    by (simp add: upt_conv_Cons del: upt_Suc)
  then show ?case by (simp add: new_st_appends Cons.IH del: upt_Suc)
qed

lemma wrapAll_st_allocates:
  "wrapAll_st v h =
     (case wrapAll v of
        Inl e \<Rightarrow> (Inl e, h)
      | Inr cs \<Rightarrow> (Inr [length h ..< length h + length cs], h @ cs))"
  by (cases v) (simp_all add: newAll_st_allocates)

lemma pickObjectArray_st_allocates:
  "pickObjectArray_st this key h =
     (case pickObjectArray (h ! this) key of
        Inl e \<Rightarrow> (Inl e, h)
      | Inr cs \<Rightarrow> (Inr [length h ..< length h + length cs], h @ cs))"
  by (simp add: pickObjectArray_st_def pickObjectArray_def pickFullkeyName_st_reads
      wrapAll_st_allocates Let_def split: sum.splits)

lemma pickObjectArrayOptional_st_allocates:
  "pickObjectArrayOptional_st this key h =
     (case pickObjectArrayOptional (h ! this) key of
        Inl e \<Rightarrow> (Inl e, h)
      | Inr None \<Rightarrow> (Inr None, h)
      | Inr (Some cs) \<Rightarrow> (Inr (Some [length h ..< length h + length cs]), h @ cs))"
  by (simp add: pickObjectArrayOptional_st_def pickObjectArrayOptional_def
      pickObjectArray_st_allocates split: sum.splits)

lemma heapAfter_appends: "\<exists>new. heapAfter m this h = h @ new"
proof (cases m)
  case (PickObject k)
  then show ?thesis
    by (simp add: pickObject_st_allocates split: sum.splits)
next
  case (PickObjectOptional k)
  then show ?thesis
    by (simp add: pickObjectOptional_st_allocates split: sum.splits option.splits)
next
  case (PickObjectArray k)
  then show ?thesis
    by (simp add: pickObjectArray_st_allocates split: sum.splits)
next
  case (PickObjectArrayOptional k)
  then show ?thesis
    by (simp add: pickObjectArrayOptional_st_allocates split: sum.splits option.splits)
qed (simp_all add: pickString_st_reads pickStringOptional_st_reads pickStringArray_st_reads
    pickStringArrayOptional_st_reads pickNumber_st_reads pickNumberOptional_st_reads
    pickNumberArray_st_reads pickNumberArrayOptional_st_reads pickBoolean_st_reads
    pickBooleanOptional_st_reads)

lemma run_appends: "run h calls = Some h' \<Longrightarrow> \<exists>new. h' = h @ new"
proof (induction calls arbitrary: h)
  case Nil
  then show ?case by simp
next
  case (Cons c calls)
  obtain this m where c: "c = (this, m)" by (cases c)
  with Cons.prems have rest: "run (heapAfter m this h) calls = Some h'"
    by (simp split: if_splits)
  from heapAfter_appends obtain new1 where h1: "heapAfter m this h = h @ new1" by blast
  from Cons.IH [OF rest] obtain new2 where "h' = heapAfter m this h @ new2" by blast
  with h1 have "h' = h @ (new1 @ new2)" by simp
  then show ?case by blast
qed

lemma run_total: "\<forall>c\<in>set calls. fst c < length h \<Longrightarrow> \<exists>h'. run h calls = Some h'"
proof (induction calls arbitrary: h)
  case Nil
  then show ?case by simp
next
  case (Cons c calls)
  obtain this m where c: "c = (this, m)" by (cases c)
  with Cons.prems have r: "this < length h" by simp
  from heapAfter_appends obtain new where h1: "heapAfter m this h = h @ new" by blast
  with Cons.prems have "\<forall>c\<in>set calls. fst c < length (heapAfter m this h)" by auto
  from Cons.IH [OF this] obtain h' where "run (heapAfter m this h) calls = Some h'" by blast
  with r c show ?case by simp
qed

text \<open>
  C9. No method assigns to a field of an accessor. Whatever method is called on whatever
  accessor, every object that was on the heap is left as it was: the ten methods that
  return a value leave the heap itself unchanged, \<open>pickObject\<close> adds one object, the
  child, and \<open>pickObjectArray\<close> one per element. So an accessor built by the constructor
  still has the wrapped value and the parent key it was built with after any sequence of
  calls, on it or on any other accessor; and a sequence of calls on accessors of the heap
  always runs to its end.
\<close>

theorem accessor_state_frozen:
  "take (length h) (heapAfter m this h) = h
   \<and> snd (pickString_st this key h) = h
   \<and> snd (pickStringOptional_st this key h) = h
   \<and> snd (pickStringArray_st this ko h) = h
   \<and> snd (pickStringArrayOptional_st this key h) = h
   \<and> snd (pickNumber_st this key h) = h
   \<and> snd (pickNumberOptional_st this key h) = h
   \<and> snd (pickNumberArray_st this ko h) = h
   \<and> snd (pickNumberArrayOptional_st this key h) = h
   \<and> snd (pickBoolean_st this key h) = h
   \<and> snd (pickBooleanOptional_st this key h) = h
   \<and> (pickObject_st this key h = (Inr c, h') \<longrightarrow>
        c = length h \<and> length h' = Suc (length h) \<and> take (length h) h' = h)
   \<and> (pickObjectArray_st this ko h = (Inr cs, h') \<longrightarrow>
        cs = [length h ..< length h + length cs] \<and> length h' = length h + length cs
        \<and> take (length h) h' = h)
   \<and> (new_st v k h = (r, h1) \<and> run h1 calls = Some h2 \<longrightarrow>
        r < length h2 \<and> quidQuid (h2 ! r) = v \<and> parentObjectKey (h2 ! r) = k)
   \<and> (run h calls = Some h2 \<longrightarrow> length h \<le> length h2 \<and> take (length h) h2 = h)
   \<and> ((\<forall>c\<in>set calls. fst c < length h) \<longrightarrow> (\<exists>h2. run h calls = Some h2))"
proof -
  have any: "take (length h) (heapAfter m this h) = h"
    using heapAfter_appends [of m this h] by auto
  have ob: "pickObject_st this key h = (Inr c, h') \<longrightarrow>
        c = length h \<and> length h' = Suc (length h) \<and> take (length h) h' = h"
    by (auto simp: pickObject_st_allocates split: sum.splits)
  have oa: "pickObjectArray_st this ko h = (Inr cs, h') \<longrightarrow>
        cs = [length h ..< length h + length cs] \<and> length h' = length h + length cs
        \<and> take (length h) h' = h"
    by (auto simp: pickObjectArray_st_allocates split: sum.splits)
  have built: "new_st v k h = (r, h1) \<and> run h1 calls = Some h2 \<longrightarrow>
        r < length h2 \<and> quidQuid (h2 ! r) = v \<and> parentObjectKey (h2 ! r) = k"
  proof
    assume a: "new_st v k h = (r, h1) \<and> run h1 calls = Some h2"
    then have r: "r = length h" and h1: "h1 = h @ [new_Quidquid v k]"
      by (simp_all add: new_st_appends)
    from a run_appends obtain new where "h2 = h1 @ new" by blast
    with r h1 show "r < length h2 \<and> quidQuid (h2 ! r) = v \<and> parentObjectKey (h2 ! r) = k"
      by (simp add: nth_append new_Quidquid_def)
  qed
  have runs: "run h calls = Some h2 \<longrightarrow> length h \<le> length h2 \<and> take (length h) h2 = h"
    using run_appends [of h calls h2] by auto
  have total: "(\<forall>c\<in>set calls. fst c < length h) \<longrightarrow> (\<exists>h2. run h calls = Some h2)"
    using run_total [of calls h] by blast
  show ?thesis
    by (intro conjI any ob oa built runs total)
      (simp_all add: pickString_st_reads pickStringOptional_st_reads
        pickStringArray_st_reads pickStringArrayOptional_st_reads pickNumber_st_reads
        pickNumberOptional_st_reads pickNumberArray_st_reads
        pickNumberArrayOptional_st_reads pickBoolean_st_reads pickBooleanOptional_st_reads)
qed

theorem accessor_state_frozen_witness:
  "from_st (JObj [(''a'', JObj [(''n'', JNum (Fin 1))]), (''items'', JArr [JObj [], JObj []])]) []
     = (0, [Quidquid_from (JObj [(''a'', JObj [(''n'', JNum (Fin 1))]),
              (''items'', JArr [JObj [], JObj []])])])
   \<and> run [Quidquid_from (JObj [(''a'', JObj [(''n'', JNum (Fin 1))]),
              (''items'', JArr [JObj [], JObj []])])]
         [(0, PickObject ''a''), (1, PickNumber ''n''), (0, PickObjectArray (Some ''items'')),
          (3, PickString ''zz''), (0, PickObject ''zz'')]
     = Some [Quidquid_from (JObj [(''a'', JObj [(''n'', JNum (Fin 1))]),
               (''items'', JArr [JObj [], JObj []])]),
             \<lparr>quidQuid = JObj [(''n'', JNum (Fin 1))], parentObjectKey = Some ''a''\<rparr>,
             \<lparr>quidQuid = JObj [], parentObjectKey = None\<rparr>,
             \<lparr>quidQuid = JObj [], parentObjectKey = None\<rparr>]
   \<and> quidQuid ([Quidquid_from (JObj [(''a'', JObj [(''n'', JNum (Fin 1))]),
               (''items'', JArr [JObj [], JObj []])]),
             \<lparr>quidQuid = JObj [(''n'', JNum (Fin 1))], parentObjectKey = Some ''a''\<rparr>,
             \<lparr>quidQuid = JObj [], parentObjectKey = None\<rparr>,
             \<lparr>quidQuid = JObj [], parentObjectKey = None\<rparr>] ! 0)
     = JObj [(''a'', JObj [(''n'', JNum (Fin 1))]), (''items'', JArr [JObj [], JObj []])]
   \<and> pickObject_st 0 ''a'' [Quidquid_from (JObj [(''a'', JObj [(''n'', JNum (Fin 1))]),
               (''items'', JArr [JObj [], JObj []])])]
     = (Inr 1, [Quidquid_from (JObj [(''a'', JObj [(''n'', JNum (Fin 1))]),
               (''items'', JArr [JObj [], JObj []])]),
             \<lparr>quidQuid = JObj [(''n'', JNum (Fin 1))], parentObjectKey = Some ''a''\<rparr>])"
proof -
  let ?w = "JObj [(''a'', JObj [(''n'', JNum (Fin 1))]), (''items'', JArr [JObj [], JObj []])]"
  let ?calls = "[(0, PickObject ''a''), (1, PickNumber ''n''),
    (0, PickObjectArray (Some ''items'')), (3, PickString ''zz''), (0, PickObject ''zz'')]"
  let ?end = "[Quidquid_from ?w,
     \<lparr>quidQuid = JObj [(''n'', JNum (Fin 1))], parentObjectKey = Some ''a''\<rparr>,
     \<lparr>quidQuid = JObj [], parentObjectKey = None\<rparr>,
     \<lparr>quidQuid = JObj [], parentObjectKey = None\<rparr>]"
  have c: "from_st ?w [] = (0, [Quidquid_from ?w])"
    by (simp add: from_st_def new_st_appends Quidquid_from_def)
  then have n: "new_st ?w None [] = (0, [Quidquid_from ?w])"
    by (simp add: from_st_def)
  have child: "pickObject_st 0 ''a'' [Quidquid_from ?w]
     = (Inr 1, [Quidquid_from ?w,
          \<lparr>quidQuid = JObj [(''n'', JNum (Fin 1))], parentObjectKey = Some ''a''\<rparr>])"
    by (simp add: pickObject_st_allocates pickObject_def Quidquid_from_def new_Quidquid_def
        pickFullkeyName_def)
  have r: "run [Quidquid_from ?w] ?calls = Some ?end"
    by (simp add: pickObject_st_allocates pickNumber_st_reads pickObjectArray_st_allocates
        pickString_st_reads Quidquid_from_def new_Quidquid_def pickObject_def
        pickNumber_def pickString_def pickObjectArray_def noKey_def pickFullkeyName_def
        read_defs)
  note built = accessor_state_frozen [THEN conjunct2, THEN conjunct2, THEN conjunct2,
      THEN conjunct2, THEN conjunct2, THEN conjunct2, THEN conjunct2, THEN conjunct2,
      THEN conjunct2, THEN conjunct2, THEN conjunct2, THEN conjunct2, THEN conjunct2,
      THEN conjunct1, rule_format]
  from built [OF conjI [OF n r]]
  have "quidQuid (?end ! 0) = ?w" by blast
  with c r child show ?thesis by blast
qed

end
